theory Spec2Isabelle
  imports Main
begin

section \<open>Go strings\<close>

text \<open>
  A Go string is a sequence of bytes; \<^typ>\<open>string\<close> is a list of 8-bit characters, so the
  two coincide. The functions of package \<open>strings\<close> that the program calls are written
  out here for the arguments the program gives them (one-byte separators).
\<close>

definition asciiSpace :: "char \<Rightarrow> bool" where
  \<comment> \<open>tab, line feed, vertical tab, form feed, carriage return, space\<close>
  "asciiSpace c \<longleftrightarrow> c \<in> {CHR 0x09, CHR 0x0A, CHR 0x0B, CHR 0x0C, CHR 0x0D, CHR 0x20}"

definition unicodeSpaces :: "string list" where
  \<comment> \<open>UTF-8 encodings of the non-ASCII code points of \<open>unicode.IsSpace\<close>: U+0085, U+00A0,
      U+1680, U+2000 to U+200A, U+2028, U+2029, U+202F, U+205F, U+3000\<close>
  "unicodeSpaces =
     [[CHR 0xC2, CHR 0x85], [CHR 0xC2, CHR 0xA0], [CHR 0xE1, CHR 0x9A, CHR 0x80],
      [CHR 0xE2, CHR 0x80, CHR 0x80], [CHR 0xE2, CHR 0x80, CHR 0x81],
      [CHR 0xE2, CHR 0x80, CHR 0x82], [CHR 0xE2, CHR 0x80, CHR 0x83],
      [CHR 0xE2, CHR 0x80, CHR 0x84], [CHR 0xE2, CHR 0x80, CHR 0x85],
      [CHR 0xE2, CHR 0x80, CHR 0x86], [CHR 0xE2, CHR 0x80, CHR 0x87],
      [CHR 0xE2, CHR 0x80, CHR 0x88], [CHR 0xE2, CHR 0x80, CHR 0x89],
      [CHR 0xE2, CHR 0x80, CHR 0x8A], [CHR 0xE2, CHR 0x80, CHR 0xA8],
      [CHR 0xE2, CHR 0x80, CHR 0xA9], [CHR 0xE2, CHR 0x80, CHR 0xAF],
      [CHR 0xE2, CHR 0x81, CHR 0x9F], [CHR 0xE3, CHR 0x80, CHR 0x80]]"

definition isPrefixOf :: "string \<Rightarrow> string \<Rightarrow> bool" where
  "isPrefixOf p s \<longleftrightarrow> take (length p) s = p"

definition spaceWidth :: "string list \<Rightarrow> string \<Rightarrow> nat" where
  \<comment> \<open>the number of bytes of the white-space rune at the head of \<open>s\<close>, 0 when there is none;
      \<open>enc\<close> lists the multi-byte encodings to look for\<close>
  "spaceWidth enc s =
     (case s of
        [] \<Rightarrow> 0
      | c # _ \<Rightarrow>
          if asciiSpace c then 1
          else (case List.find (\<lambda>p. isPrefixOf p s) enc of
                  None \<Rightarrow> 0
                | Some p \<Rightarrow> length p))"

function trimFront :: "string list \<Rightarrow> string \<Rightarrow> string" where
  "trimFront enc s =
     (if spaceWidth enc s = 0 then s else trimFront enc (drop (spaceWidth enc s) s))"
  by pat_completeness auto
termination
  by (relation "measure (\<lambda>(enc, s). length s)") (auto simp: spaceWidth_def split: list.splits)

definition TrimSpace :: "string \<Rightarrow> string" where
  \<comment> \<open>\<open>strings.TrimSpace\<close>: leading white-space runes are removed, then trailing ones; the
      trailing ones are found reading the bytes backwards\<close>
  "TrimSpace s = rev (trimFront (map rev unicodeSpaces) (rev (trimFront unicodeSpaces s)))"

fun Split :: "string \<Rightarrow> char \<Rightarrow> string list" where
  \<comment> \<open>\<open>strings.Split(s, sep)\<close> for a one-byte separator: never empty, \<open>Split "" sep = [""]\<close>\<close>
  "Split [] sep = [[]]"
| "Split (c # s) sep =
     (if c = sep then [] # Split s sep
      else (case Split s sep of [] \<Rightarrow> [[c]] | l # ls \<Rightarrow> (c # l) # ls))"

fun SplitN :: "string \<Rightarrow> char \<Rightarrow> nat \<Rightarrow> string list" where
  \<comment> \<open>\<open>strings.SplitN(s, sep, n)\<close> for a one-byte separator and \<open>n \<ge> 0\<close>: at most \<open>n\<close> pieces,
      the last one the unsplit rest\<close>
  "SplitN s sep 0 = []"
| "SplitN s sep (Suc 0) = [s]"
| "SplitN s sep (Suc (Suc n)) =
     (if sep \<in> set s
      then takeWhile (\<lambda>c. c \<noteq> sep) s # SplitN (tl (dropWhile (\<lambda>c. c \<noteq> sep) s)) sep (Suc n)
      else [s])"

definition HasSuffix :: "string \<Rightarrow> string \<Rightarrow> bool" where
  "HasSuffix s suffix \<longleftrightarrow>
     length suffix \<le> length s \<and> drop (length s - length suffix) s = suffix"

fun Join :: "string list \<Rightarrow> string \<Rightarrow> string" where
  "Join [] sep = []"
| "Join [x] sep = x"
| "Join (x # y # ys) sep = x @ sep @ Join (y # ys) sep"

section \<open>The header parser\<close>

text \<open>
  \<open>parseHeaders\<close> (main.go, 652 to 671). The loop over the lines is \<open>parseHeaders_loop\<close>, with
  the map \<open>headers\<close> as its accumulator; \<open>continue\<close> is the recursive call on the unchanged
  map.
\<close>

fun parseHeaders_loop :: "string list \<Rightarrow> (string \<rightharpoonup> string) \<Rightarrow> (string \<rightharpoonup> string)" where
  "parseHeaders_loop [] headers = headers"
| "parseHeaders_loop (line0 # lines) headers =
     (let line = TrimSpace line0 in
      if line = [] then parseHeaders_loop lines headers
      else
        (let parts = SplitN line (CHR '':'') 2 in
         if length parts = 2
         then parseHeaders_loop lines
                (headers(TrimSpace (parts ! 0) \<mapsto> TrimSpace (parts ! 1)))
         else parseHeaders_loop lines headers))"

definition parseHeaders :: "string \<Rightarrow> (string \<rightharpoonup> string)" where
  "parseHeaders input = parseHeaders_loop (Split input (CHR 0x0A)) Map.empty"

text \<open>
  The algorithm as the specification words it: split on line boundaries, trim each line,
  skip blank lines, split each remaining line on its first colon, trim key and value, insert
  with the last write winning; a line without a colon is discarded.
\<close>

definition spec_header_line :: "string \<Rightarrow> (string \<times> string) option" where
  "spec_header_line line =
     (if CHR '':'' \<in> set line
      then Some (TrimSpace (takeWhile (\<lambda>c. c \<noteq> CHR '':'') line),
                 TrimSpace (tl (dropWhile (\<lambda>c. c \<noteq> CHR '':'') line)))
      else None)"

definition spec_parseHeaders :: "string \<Rightarrow> (string \<rightharpoonup> string)" where
  "spec_parseHeaders input =
     (let lines = map TrimSpace (Split input (CHR 0x0A));
          nonblank = filter (\<lambda>l. l \<noteq> []) lines;
          entries = List.map_filter spec_header_line nonblank
      in map_of (rev entries))"

section \<open>The data model\<close>

text \<open>
  \<open>HTTPRequest\<close> and \<open>HTTPResponse\<close> (main.go, 54 to 70). A Go \<open>map[string]string\<close> is a
  partial function. The fields \<open>Headers\<close> and \<open>Body\<close> of the response carry the prefix
  \<open>Resp\<close>, since the request has fields of the same names.
\<close>

record HTTPRequest =
  Name :: string
  Method :: string
  URL :: string
  Headers :: "string \<rightharpoonup> string"
  Body :: string

record HTTPResponse =
  StatusCode :: int
  Status :: string
  RespHeaders :: "string \<rightharpoonup> string"
  RespBody :: string
  Error :: string

datatype uistate =
  stateMain | stateEditRequest | stateViewResponse | stateSaveRequest | stateLoadRequest

definition httpMethods :: "string list" where
  "httpMethods = [''GET'', ''POST'', ''PUT'', ''DELETE'', ''PATCH'', ''HEAD'', ''OPTIONS'']"

subsection \<open>Messages and commands of the event loop\<close>

text \<open>
  A key message of the terminal library has a type, the typed runes and the Alt flag. The
  key types the program names are constructors of their own; \<open>KeyOther n\<close> is any other key
  type, with its entry \<open>n\<close> of the library's table of key names. \<open>KeyMsg_String\<close> is the
  library's \<open>String()\<close>: the runes of a rune key, the name of any other key, after
  \<open>alt+\<close> when Alt is set (the brackets it puts around pasted runes are left out).
\<close>

datatype KeyType =
  KeyRunes | KeyTab | KeyCtrlN | KeyEnter | KeyEsc | KeyCtrlS | KeyCtrlC | KeyOther string

record KeyMsg =
  Type :: KeyType
  Runes :: string
  Alt :: bool

fun keyNames :: "KeyType \<Rightarrow> string" where
  "keyNames KeyRunes = ''runes''"
| "keyNames KeyTab = ''tab''"
| "keyNames KeyCtrlN = ''ctrl+n''"
| "keyNames KeyEnter = ''enter''"
| "keyNames KeyEsc = ''esc''"
| "keyNames KeyCtrlS = ''ctrl+s''"
| "keyNames KeyCtrlC = ''ctrl+c''"
| "keyNames (KeyOther n) = n"

definition KeyMsg_String :: "KeyMsg \<Rightarrow> string" where
  "KeyMsg_String k =
     (if Alt k then ''alt+'' else []) @ (if Type k = KeyRunes then Runes k else keyNames (Type k))"

text \<open>
  The messages \<open>Update\<close> distinguishes (main.go, 100 to 103 and the type switch at 189); an
  error value is its description. \<open>OtherMsg\<close> is any message of another type (a cursor blink,
  for instance).
\<close>

datatype Msg =
  KeyMsg KeyMsg
| WindowSizeMsg int int
| responseMsg HTTPResponse
| savedRequestsMsg "HTTPRequest list"
| errMsg string
| spinner_TickMsg
| OtherMsg nat

text \<open>
  A command is a computation the runtime performs later; the ones the program builds are
  named, \<open>LibCmd\<close> is a command that a widget of the library returned.
\<close>

datatype Cmd =
  CmdNil
| tea_Quit
| textinput_Blink
| textarea_Blink
| spinner_Tick
| Cmd_sendRequest HTTPRequest
| Cmd_saveRequest HTTPRequest
| Cmd_loadSavedRequests
| tea_Batch "Cmd list"
| LibCmd nat

subsection \<open>Widgets of the UI library\<close>

text \<open>
  The widgets are values of the library. A widget is modelled by the part of it that the
  program reads or writes: the text and the focus flag of an input, the items and the cursor
  of a list, the content and the size of the viewport. The operations the program calls on
  them by name have the library's documented effect on that part; the widths and heights
  are the ones last given to the widget (0 for a text area before \<open>SetWidth\<close> is called).
  Placeholders, titles and styles only matter to the rendering and are left out. What a
  widget does with a message (its own \<open>Update\<close>) is not fixed here: it is a parameter, see
  \<open>ui_env\<close>.
\<close>

record textinput_Model =
  ti_value :: string
  ti_focus :: bool

record textarea_Model =
  ta_value :: string
  ta_focus :: bool
  ta_width :: int

record item =
  title :: string
  desc :: string

record list_Model =
  l_items :: "item list"
  l_index :: int
  l_width :: int
  l_height :: int

record viewport_Model =
  vp_content :: string
  vp_Width :: int
  vp_Height :: int

type_synonym spinner_Model = nat

definition textinput_Focus :: "textinput_Model \<Rightarrow> textinput_Model" where
  "textinput_Focus w = w\<lparr>ti_focus := True\<rparr>"

definition textinput_Blur :: "textinput_Model \<Rightarrow> textinput_Model" where
  "textinput_Blur w = w\<lparr>ti_focus := False\<rparr>"

definition textinput_Reset :: "textinput_Model \<Rightarrow> textinput_Model" where
  "textinput_Reset w = w\<lparr>ti_value := []\<rparr>"

definition textarea_Focus :: "textarea_Model \<Rightarrow> textarea_Model" where
  "textarea_Focus w = w\<lparr>ta_focus := True\<rparr>"

definition textarea_Blur :: "textarea_Model \<Rightarrow> textarea_Model" where
  "textarea_Blur w = w\<lparr>ta_focus := False\<rparr>"

definition textarea_SetWidth :: "textarea_Model \<Rightarrow> int \<Rightarrow> textarea_Model" where
  "textarea_SetWidth w n = w\<lparr>ta_width := n\<rparr>"

definition list_Select :: "list_Model \<Rightarrow> int \<Rightarrow> list_Model" where
  "list_Select l i = l\<lparr>l_index := i\<rparr>"

definition list_SetSize :: "list_Model \<Rightarrow> int \<Rightarrow> int \<Rightarrow> list_Model" where
  "list_SetSize l w h = l\<lparr>l_width := w, l_height := h\<rparr>"

definition list_SetItems :: "list_Model \<Rightarrow> item list \<Rightarrow> list_Model" where
  "list_SetItems l its = l\<lparr>l_items := its\<rparr>"

definition viewport_SetContent :: "viewport_Model \<Rightarrow> string \<Rightarrow> viewport_Model" where
  "viewport_SetContent v c = v\<lparr>vp_content := c\<rparr>"

text \<open>
  What the program takes from its surroundings while it handles a message: the \<open>Update\<close>
  functions of the widgets, the bold rendering of the styling library, and the order in which
  Go's \<open>range\<close> visits the entries of a map (unspecified by the language).
\<close>

record ui_env =
  textinput_Update :: "textinput_Model \<Rightarrow> Msg \<Rightarrow> textinput_Model \<times> Cmd"
  textarea_Update :: "textarea_Model \<Rightarrow> Msg \<Rightarrow> textarea_Model \<times> Cmd"
  list_Update :: "list_Model \<Rightarrow> Msg \<Rightarrow> list_Model \<times> Cmd"
  viewport_Update :: "viewport_Model \<Rightarrow> Msg \<Rightarrow> viewport_Model \<times> Cmd"
  spinner_Update :: "spinner_Model \<Rightarrow> Msg \<Rightarrow> spinner_Model \<times> Cmd"
  Render_Bold :: "string \<Rightarrow> string"
  rangeMap :: "(string \<rightharpoonup> string) \<Rightarrow> (string \<times> string) list"

subsection \<open>The application state\<close>

text \<open>\<open>model\<close> (main.go, 73 to 90); \<open>err\<close> is \<open>None\<close> for Go's nil error.\<close>

record model =
  state :: uistate
  width :: int
  height :: int
  currentRequest :: HTTPRequest
  response :: HTTPResponse
  methodList :: list_Model
  urlInput :: textinput_Model
  bodyInput :: textarea_Model
  headerInput :: textarea_Model
  nameInput :: textinput_Model
  responseView :: viewport_Model
  spinner :: spinner_Model
  loading :: bool
  savedRequests :: "HTTPRequest list"
  requestList :: list_Model
  err :: "string option"

definition initialModel :: model where
  "initialModel =
     \<lparr>state = stateMain, width = 0, height = 0,
      currentRequest = \<lparr>Name = [], Method = ''GET'', URL = [], Headers = Map.empty, Body = []\<rparr>,
      response = \<lparr>StatusCode = 0, Status = [], RespHeaders = Map.empty, RespBody = [], Error = []\<rparr>,
      methodList =
        \<lparr>l_items = map (\<lambda>method. \<lparr>title = method, desc = []\<rparr>) httpMethods,
         l_index = 0, l_width = 0, l_height = 0\<rparr>,
      urlInput = textinput_Focus \<lparr>ti_value = [], ti_focus = False\<rparr>,
      bodyInput = \<lparr>ta_value = [], ta_focus = False, ta_width = 0\<rparr>,
      headerInput = \<lparr>ta_value = [], ta_focus = False, ta_width = 0\<rparr>,
      nameInput = textinput_Focus \<lparr>ti_value = [], ti_focus = False\<rparr>,
      responseView = viewport_SetContent \<lparr>vp_content = [], vp_Width = 80, vp_Height = 20\<rparr> [],
      spinner = 0, loading = False, savedRequests = [],
      requestList = \<lparr>l_items = [], l_index = 0, l_width = 0, l_height = 0\<rparr>,
      err = None\<rparr>"

definition Init :: Cmd where
  "Init = tea_Batch [Cmd_loadSavedRequests, textinput_Blink, textarea_Blink]"

section \<open>The update function\<close>

text \<open>
  Indexing a Go slice out of its range panics; \<open>slice_at\<close> makes the check explicit, and
  \<open>Update\<close> returns the panic as a value. \<open>indexOf\<close> is main.go, 673 to 680.
\<close>

datatype go_panic = IndexOutOfRange

definition slice_at :: "'a list \<Rightarrow> int \<Rightarrow> 'a option" where
  "slice_at xs i = (if 0 \<le> i \<and> i < int (length xs) then Some (xs ! nat i) else None)"

fun indexOf_from :: "int \<Rightarrow> string \<Rightarrow> string list \<Rightarrow> int" where
  "indexOf_from i val [] = 0"
| "indexOf_from i val (item # rest) = (if item = val then i else indexOf_from (i + 1) val rest)"

definition indexOf :: "string \<Rightarrow> string list \<Rightarrow> int" where
  "indexOf val slice = indexOf_from 0 val slice"

text \<open>
  \<open>Update\<close> (main.go, 185 to 441) first switches on the type of the message; a branch either
  returns, or falls out of the switch to the component updates at line 386, or panics.
\<close>

datatype outcome = Panic | Return model Cmd | Fallthrough model

definition isNavigationKey :: "KeyMsg \<Rightarrow> bool" where
  \<comment> \<open>the condition on the key at lines 192 and 392\<close>
  "isNavigationKey msg \<longleftrightarrow>
     KeyMsg_String msg = ''ctrl+n'' \<or> Type msg = KeyCtrlN \<or>
     KeyMsg_String msg = ''tab'' \<or> Type msg = KeyTab"

definition navigate :: "model \<Rightarrow> outcome" where
  \<comment> \<open>lines 194 to 214\<close>
  "navigate m =
     (if ti_focus (urlInput m) then
        Return (m\<lparr>urlInput := textinput_Blur (urlInput m),
                  methodList :=
                    list_Select (methodList m) (indexOf (Method (currentRequest m)) httpMethods)\<rparr>)
          CmdNil
      else if \<not> ti_focus (urlInput m) \<and> \<not> ta_focus (headerInput m) \<and> \<not> ta_focus (bodyInput m) then
        (case slice_at httpMethods (l_index (methodList m)) of
           None \<Rightarrow> Panic
         | Some method \<Rightarrow>
             Return (m\<lparr>currentRequest := (currentRequest m)\<lparr>Method := method\<rparr>,
                       headerInput := textarea_Focus (headerInput m)\<rparr>)
               textarea_Blink)
      else if ta_focus (headerInput m) then
        Return (m\<lparr>headerInput := textarea_Blur (headerInput m),
                  bodyInput := textarea_Focus (bodyInput m)\<rparr>)
          textarea_Blink
      else if ta_focus (bodyInput m) then
        Return (m\<lparr>bodyInput := textarea_Blur (bodyInput m),
                  urlInput := textinput_Focus (urlInput m)\<rparr>)
          textinput_Blink
      else Fallthrough m)"

definition handleKey :: "model \<Rightarrow> KeyMsg \<Rightarrow> outcome" where
  \<comment> \<open>the switch on \<open>m.state\<close>, lines 217 to 302\<close>
  "handleKey m msg =
     (case state m of
        stateMain \<Rightarrow>
          if KeyMsg_String msg = ''q'' \<or> KeyMsg_String msg = ''ctrl+c'' \<or> KeyMsg_String msg = ''esc''
          then Return m tea_Quit
          else if KeyMsg_String msg = ''e'' \<or> KeyMsg_String msg = ''n''
          then Return (m\<lparr>state := stateEditRequest, urlInput := textinput_Focus (urlInput m)\<rparr>) CmdNil
          else if KeyMsg_String msg = ''l''
          then Return (m\<lparr>state := stateLoadRequest\<rparr>) CmdNil
          else if KeyMsg_String msg = ''enter''
          then
            (if URL (currentRequest m) \<noteq> []
             then Return (m\<lparr>loading := True\<rparr>)
                    (tea_Batch [spinner_Tick, Cmd_sendRequest (currentRequest m)])
             else Fallthrough m)
          else Fallthrough m
      | stateEditRequest \<Rightarrow>
          if KeyMsg_String msg = ''esc''
          then Return (m\<lparr>state := stateMain\<rparr>) CmdNil
          else if KeyMsg_String msg = ''enter''
          then
            (if \<not> ti_focus (urlInput m) \<and> \<not> ta_focus (headerInput m) \<and> \<not> ta_focus (bodyInput m)
             then
               (case slice_at httpMethods (l_index (methodList m)) of
                  None \<Rightarrow> Panic
                | Some method \<Rightarrow>
                    Return (m\<lparr>currentRequest := (currentRequest m)\<lparr>Method := method\<rparr>,
                              headerInput := textarea_Focus (headerInput m)\<rparr>)
                      CmdNil)
             else Fallthrough m)
          else if KeyMsg_String msg = ''s''
          then
            (if Alt msg
             then Return (m\<lparr>state := stateSaveRequest, nameInput := textinput_Focus (nameInput m)\<rparr>)
                    CmdNil
             else Fallthrough m)
          else if KeyMsg_String msg = ''ctrl+s''
          then Return (m\<lparr>state := stateMain, loading := True\<rparr>)
                 (tea_Batch [spinner_Tick, Cmd_sendRequest (currentRequest m)])
          else Fallthrough m
      | stateViewResponse \<Rightarrow>
          if KeyMsg_String msg = ''esc'' \<or> KeyMsg_String msg = ''q''
          then Return (m\<lparr>state := stateMain\<rparr>) CmdNil
          else if KeyMsg_String msg = ''e''
          then Return (m\<lparr>state := stateEditRequest\<rparr>) CmdNil
          else Fallthrough m
      | stateSaveRequest \<Rightarrow>
          if KeyMsg_String msg = ''esc''
          then Return (m\<lparr>state := stateEditRequest\<rparr>) CmdNil
          else if KeyMsg_String msg = ''enter''
          then
            (if ti_value (nameInput m) \<noteq> []
             then
               (let req = (currentRequest m)\<lparr>Name := ti_value (nameInput m)\<rparr>
                in Return (m\<lparr>currentRequest := req, state := stateEditRequest,
                             nameInput := textinput_Reset (nameInput m)\<rparr>)
                     (Cmd_saveRequest req))
             else Fallthrough m)
          else Fallthrough m
      | stateLoadRequest \<Rightarrow>
          if KeyMsg_String msg = ''esc''
          then Return (m\<lparr>state := stateMain\<rparr>) CmdNil
          else if KeyMsg_String msg = ''enter''
          then
            (if length (savedRequests m) > 0 \<and> l_index (requestList m) \<ge> 0
             then
               (case slice_at (savedRequests m) (l_index (requestList m)) of
                  None \<Rightarrow> Panic
                | Some req \<Rightarrow> Return (m\<lparr>currentRequest := req, state := stateMain\<rparr>) CmdNil)
             else Fallthrough m)
          else Fallthrough m)"

text \<open>
  The content of the response view (lines 322 to 354). \<open>showInt\<close> is the verb \<open>%d\<close>;
  \<open>formatHeaders\<close> is the loop over a map of headers, in the order \<open>range\<close> gives.
\<close>

function showNat :: "nat \<Rightarrow> string" where
  "showNat n =
     (if n < 10 then [char_of (48 + n)] else showNat (n div 10) @ [char_of (48 + n mod 10)])"
  by pat_completeness auto
termination
  by (relation "measure id") auto

definition showInt :: "int \<Rightarrow> string" where
  "showInt i = (if i < 0 then ''-'' @ showNat (nat (- i)) else showNat (nat i))"

definition formatHeaders :: "(string \<times> string) list \<Rightarrow> string" where
  "formatHeaders kvs = concat (map (\<lambda>(k, v). k @ '': '' @ v @ [CHR 0x0A]) kvs)"

definition responseContent :: "ui_env \<Rightarrow> HTTPRequest \<Rightarrow> HTTPResponse \<Rightarrow> string" where
  "responseContent ui req resp =
     ''Request:'' @ [CHR 0x0A] @ Render_Bold ui (Method req) @ '' '' @ URL req @ [CHR 0x0A, CHR 0x0A]
     @ (if Headers req \<noteq> Map.empty
        then ''Request Headers:'' @ [CHR 0x0A] @ formatHeaders (rangeMap ui (Headers req)) @ [CHR 0x0A]
        else [])
     @ (if Body req \<noteq> []
        then ''Request Body:'' @ [CHR 0x0A] @ Body req @ [CHR 0x0A, CHR 0x0A]
        else [])
     @ ''Response Status: '' @ showInt (StatusCode resp) @ '' '' @ Status resp @ [CHR 0x0A, CHR 0x0A]
     @ (if RespHeaders resp \<noteq> Map.empty
        then ''Response Headers:'' @ [CHR 0x0A] @ formatHeaders (rangeMap ui (RespHeaders resp))
             @ [CHR 0x0A]
        else [])
     @ ''Response Body:'' @ [CHR 0x0A] @ RespBody resp"

definition handleMsg :: "ui_env \<Rightarrow> model \<Rightarrow> Msg \<Rightarrow> outcome" where
  \<comment> \<open>the type switch, lines 189 to 384\<close>
  "handleMsg ui m msg =
     (case msg of
        KeyMsg k \<Rightarrow>
          if state m = stateEditRequest \<and> isNavigationKey k
          then (case navigate m of Fallthrough m' \<Rightarrow> handleKey m' k | out \<Rightarrow> out)
          else handleKey m k
      | WindowSizeMsg w h \<Rightarrow>
          Fallthrough
            (m\<lparr>width := w, height := h,
               methodList := list_SetSize (methodList m) 30 10,
               requestList := list_SetSize (requestList m) w (h - 4),
               responseView := (responseView m)\<lparr>vp_Width := w, vp_Height := h - 4\<rparr>,
               bodyInput := textarea_SetWidth (bodyInput m) (w - 4),
               headerInput := textarea_SetWidth (headerInput m) (w - 4)\<rparr>)
      | responseMsg resp \<Rightarrow>
          Return
            (m\<lparr>loading := False, response := resp, state := stateViewResponse,
               responseView :=
                 viewport_SetContent (responseView m) (responseContent ui (currentRequest m) resp)\<rparr>)
            CmdNil
      | savedRequestsMsg reqs \<Rightarrow>
          Return
            (m\<lparr>savedRequests := reqs,
               requestList :=
                 list_SetItems (requestList m)
                   (map (\<lambda>req. \<lparr>title = Name req, desc = Method req @ '' '' @ URL req\<rparr>) reqs)\<rparr>)
            CmdNil
      | errMsg e \<Rightarrow> Return (m\<lparr>loading := False, err := Some e\<rparr>) CmdNil
      | spinner_TickMsg \<Rightarrow>
          if loading m
          then (case spinner_Update ui (spinner m) msg of (s, cmd) \<Rightarrow> Return (m\<lparr>spinner := s\<rparr>) cmd)
          else Fallthrough m
      | OtherMsg _ \<Rightarrow> Fallthrough m)"

definition isTabKeyMsg :: "Msg \<Rightarrow> bool" where
  \<comment> \<open>\<open>keyMsg, ok := msg.(tea.KeyMsg); ok && keyMsg.Type == tea.KeyTab\<close>\<close>
  "isTabKeyMsg msg = (case msg of KeyMsg k \<Rightarrow> Type k = KeyTab | _ \<Rightarrow> False)"

definition componentUpdates :: "ui_env \<Rightarrow> model \<Rightarrow> Msg \<Rightarrow> model \<times> Cmd" where
  \<comment> \<open>lines 386 to 440\<close>
  "componentUpdates ui m msg =
     (case state m of
        stateEditRequest \<Rightarrow>
          if (case msg of KeyMsg k \<Rightarrow> isNavigationKey k | _ \<Rightarrow> False) then (m, CmdNil)
          else if ti_focus (urlInput m) then
            (case textinput_Update ui (urlInput m) msg of
               (w, cmd) \<Rightarrow>
                 (m\<lparr>urlInput := w, currentRequest := (currentRequest m)\<lparr>URL := ti_value w\<rparr>\<rparr>,
                  tea_Batch [cmd]))
          else if ta_focus (bodyInput m) then
            (if isTabKeyMsg msg then (m, CmdNil)
             else
               (case textarea_Update ui (bodyInput m) msg of
                  (w, cmd) \<Rightarrow>
                    (m\<lparr>bodyInput := w, currentRequest := (currentRequest m)\<lparr>Body := ta_value w\<rparr>\<rparr>,
                     tea_Batch [cmd])))
          else if ta_focus (headerInput m) then
            (if isTabKeyMsg msg then (m, CmdNil)
             else
               (case textarea_Update ui (headerInput m) msg of
                  (w, cmd) \<Rightarrow>
                    (m\<lparr>headerInput := w,
                       currentRequest := (currentRequest m)\<lparr>Headers := parseHeaders (ta_value w)\<rparr>\<rparr>,
                     tea_Batch [cmd])))
          else
            (case list_Update ui (methodList m) msg of
               (l, cmd) \<Rightarrow> (m\<lparr>methodList := l\<rparr>, tea_Batch [cmd]))
      | stateSaveRequest \<Rightarrow>
          (case textinput_Update ui (nameInput m) msg of
             (w, cmd) \<Rightarrow> (m\<lparr>nameInput := w\<rparr>, tea_Batch [cmd]))
      | stateViewResponse \<Rightarrow>
          (case viewport_Update ui (responseView m) msg of
             (v, cmd) \<Rightarrow> (m\<lparr>responseView := v\<rparr>, tea_Batch [cmd]))
      | stateLoadRequest \<Rightarrow>
          (case list_Update ui (requestList m) msg of
             (l, cmd) \<Rightarrow> (m\<lparr>requestList := l\<rparr>, tea_Batch [cmd]))
      | stateMain \<Rightarrow> (m, tea_Batch []))"

definition Update :: "ui_env \<Rightarrow> model \<Rightarrow> Msg \<Rightarrow> go_panic + model \<times> Cmd" where
  "Update ui m msg =
     (case handleMsg ui m msg of
        Panic \<Rightarrow> Inl IndexOutOfRange
      | Return m' cmd \<Rightarrow> Inr (m', cmd)
      | Fallthrough m' \<Rightarrow> Inr (componentUpdates ui m' msg))"

text \<open>The event loop: the messages of a list are handled in order, a panic ends the run.\<close>

fun run :: "ui_env \<Rightarrow> model \<Rightarrow> Msg list \<Rightarrow> go_panic + model" where
  "run ui m [] = Inr m"
| "run ui m (msg # msgs) =
     (case Update ui m msg of Inl p \<Rightarrow> Inl p | Inr (m', cmd) \<Rightarrow> run ui m' msgs)"

section \<open>The request executor\<close>

text \<open>
  The header of an outgoing request is a \<open>http.Header\<close>, a map from canonical keys to lists
  of values. \<open>Add\<close>, \<open>Get\<close> and \<open>Set\<close> canonicalise the key they are given:
  a key made of token bytes only gets an upper-case letter first and after every dash, and
  lower-case letters elsewhere; any other key is left as it is.
\<close>

type_synonym http_Header = "string \<rightharpoonup> string list"

definition validHeaderFieldByte :: "char \<Rightarrow> bool" where
  "validHeaderFieldByte c \<longleftrightarrow>
     (let n = (of_char c :: nat) in
      (48 \<le> n \<and> n \<le> 57) \<or> (65 \<le> n \<and> n \<le> 90) \<or> (97 \<le> n \<and> n \<le> 122) \<or>
      c \<in> set ''!#$%&*+-.^_|~'' \<or> n = 39 \<or> n = 96)"

definition isLower :: "char \<Rightarrow> bool" where
  "isLower c \<longleftrightarrow> 97 \<le> (of_char c :: nat) \<and> (of_char c :: nat) \<le> 122"

definition isUpper :: "char \<Rightarrow> bool" where
  "isUpper c \<longleftrightarrow> 65 \<le> (of_char c :: nat) \<and> (of_char c :: nat) \<le> 90"

fun canonical_from :: "bool \<Rightarrow> string \<Rightarrow> string" where
  "canonical_from upper [] = []"
| "canonical_from upper (c # cs) =
     (let c' = (if upper \<and> isLower c then char_of ((of_char c :: nat) - 32)
                else if \<not> upper \<and> isUpper c then char_of ((of_char c :: nat) + 32)
                else c)
      in c' # canonical_from (c' = CHR ''-'') cs)"

definition CanonicalMIMEHeaderKey :: "string \<Rightarrow> string" where
  "CanonicalMIMEHeaderKey s = (if list_all validHeaderFieldByte s then canonical_from True s else s)"

definition Header_Add :: "http_Header \<Rightarrow> string \<Rightarrow> string \<Rightarrow> http_Header" where
  "Header_Add h key v =
     (let k = CanonicalMIMEHeaderKey key
      in h(k \<mapsto> (case h k of None \<Rightarrow> [v] | Some vs \<Rightarrow> vs @ [v])))"

definition Header_Get :: "http_Header \<Rightarrow> string \<Rightarrow> string" where
  "Header_Get h key =
     (case h (CanonicalMIMEHeaderKey key) of None \<Rightarrow> [] | Some [] \<Rightarrow> [] | Some (v # _) \<Rightarrow> v)"

definition Header_Set :: "http_Header \<Rightarrow> string \<Rightarrow> string \<Rightarrow> http_Header" where
  "Header_Set h key v = h(CanonicalMIMEHeaderKey key \<mapsto> [v])"

record http_Request =
  rq_Method :: string
  rq_URL :: string
  rq_Body :: "string option"
  rq_Header :: http_Header

text \<open>
  A completed round trip: status, header, and what reading the body to its end gives (an
  error or the bytes read).
\<close>

record http_Response =
  rs_StatusCode :: int
  rs_Status :: string
  rs_Header :: http_Header
  rs_ReadAll :: "string + string"

text \<open>
  The network and the HTTP library: whether \<open>http.NewRequest\<close> refuses a method, URL and
  body (with which error), what \<open>client.Do\<close> gives for a request (a transport error or a
  timeout, or a response), and the order in which \<open>range\<close> visits the headers of the request.
\<close>

record net_env =
  NewRequest_error :: "string \<Rightarrow> string \<Rightarrow> string option \<Rightarrow> string option"
  client_Do :: "http_Request \<Rightarrow> string + http_Response"
  rangeHeaders :: "(string \<rightharpoonup> string) \<Rightarrow> (string \<times> string) list"

definition addHeaders :: "(string \<times> string) list \<Rightarrow> http_Header \<Rightarrow> http_Header" where
  \<comment> \<open>the loop of lines 558 to 560 over the entries in the order of \<open>range\<close>\<close>
  "addHeaders kvs h = foldl (\<lambda>h (k, v). Header_Add h k v) h kvs"

definition outgoingRequest :: "net_env \<Rightarrow> HTTPRequest \<Rightarrow> string + http_Request" where
  \<comment> \<open>lines 547 to 565: the request handed to \<open>client.Do\<close>, or the error of its construction\<close>
  "outgoingRequest net req =
     (let reqBody = (if Body req \<noteq> [] then Some (Body req) else None)
      in case NewRequest_error net (Method req) (URL req) reqBody of
           Some e \<Rightarrow> Inl e
         | None \<Rightarrow>
             (let httpReq = \<lparr>rq_Method = (if Method req = [] then ''GET'' else Method req),
                             rq_URL = URL req, rq_Body = reqBody, rq_Header = Map.empty\<rparr>;
                  header = addHeaders (rangeHeaders net (Headers req)) (rq_Header httpReq)
              in if Body req \<noteq> [] \<and> Header_Get header ''Content-Type'' = []
                 then Inr (httpReq\<lparr>rq_Header := Header_Set header ''Content-Type'' ''application/json''\<rparr>)
                 else Inr (httpReq\<lparr>rq_Header := header\<rparr>)))"

definition sendRequest :: "net_env \<Rightarrow> HTTPRequest \<Rightarrow> Msg" where
  \<comment> \<open>what the command built by \<open>sendRequest(req)\<close> does when the runtime runs it\<close>
  "sendRequest net req =
     (case outgoingRequest net req of
        Inl e \<Rightarrow> errMsg e
      | Inr httpReq \<Rightarrow>
          (case client_Do net httpReq of
             Inl e \<Rightarrow> errMsg e
           | Inr resp \<Rightarrow>
               (case rs_ReadAll resp of
                  Inl e \<Rightarrow> errMsg e
                | Inr body \<Rightarrow>
                    responseMsg
                      \<lparr>StatusCode = rs_StatusCode resp, Status = rs_Status resp,
                       RespHeaders = (\<lambda>k. map_option (\<lambda>v. Join v '', '') (rs_Header resp k)),
                       RespBody = body, Error = []\<rparr>)))"

section \<open>The persistence store\<close>

text \<open>
  The file system as \<open>loadSavedRequests\<close> (main.go, 619 to 650) sees it: whether
  \<open>os.Stat("requests")\<close> fails with a does-not-exist error, what \<open>os.ReadDir\<close> gives, what
  \<open>os.ReadFile\<close> gives for a path, and what \<open>json.Unmarshal\<close> makes of the bytes of a file.
\<close>

record DirEntry =
  de_Name :: string
  de_IsDir :: bool

record fs_env =
  stat_IsNotExist :: bool
  ReadDir :: "string + DirEntry list"
  ReadFile :: "string \<Rightarrow> string + string"
  json_Unmarshal :: "string \<Rightarrow> string + HTTPRequest"

definition filepath_Join :: "string \<Rightarrow> string \<Rightarrow> string" where
  \<comment> \<open>for a directory and the name of one of its entries\<close>
  "filepath_Join dir name = dir @ ''/'' @ name"

fun loadSavedRequests_loop :: "fs_env \<Rightarrow> DirEntry list \<Rightarrow> HTTPRequest list \<Rightarrow> HTTPRequest list" where
  "loadSavedRequests_loop fs [] requests = requests"
| "loadSavedRequests_loop fs (file # files) requests =
     (if \<not> de_IsDir file \<and> HasSuffix (de_Name file) ''.json''
      then
        (case ReadFile fs (filepath_Join ''requests'' (de_Name file)) of
           Inl _ \<Rightarrow> loadSavedRequests_loop fs files requests
         | Inr data \<Rightarrow>
             (case json_Unmarshal fs data of
                Inl _ \<Rightarrow> loadSavedRequests_loop fs files requests
              | Inr req \<Rightarrow> loadSavedRequests_loop fs files (requests @ [req])))
      else loadSavedRequests_loop fs files requests)"

definition loadSavedRequests :: "fs_env \<Rightarrow> Msg" where
  "loadSavedRequests fs =
     (if stat_IsNotExist fs then savedRequestsMsg []
      else (case ReadDir fs of
              Inl e \<Rightarrow> errMsg e
            | Inr files \<Rightarrow> savedRequestsMsg (loadSavedRequests_loop fs files [])))"

section \<open>Notions of the specification\<close>

text \<open>
  The logical focus of the specification, read off the focus flags of the three text fields
  as the program does (main.go, 199 and 246: the method list is current when no text field
  is focused). It is undefined when two text fields are focused at once.
\<close>

datatype Focus = FocusURL | FocusMethod | FocusHeaders | FocusBody

definition focus :: "model \<Rightarrow> Focus option" where
  "focus m =
     (case (ti_focus (urlInput m), ta_focus (headerInput m), ta_focus (bodyInput m)) of
        (True, False, False) \<Rightarrow> Some FocusURL
      | (False, False, False) \<Rightarrow> Some FocusMethod
      | (False, True, False) \<Rightarrow> Some FocusHeaders
      | (False, False, True) \<Rightarrow> Some FocusBody
      | _ \<Rightarrow> None)"

fun advance :: "Focus \<Rightarrow> Focus" where
  "advance FocusURL = FocusMethod"
| "advance FocusMethod = FocusHeaders"
| "advance FocusHeaders = FocusBody"
| "advance FocusBody = FocusURL"

definition focusedCount :: "model \<Rightarrow> nat" where
  \<comment> \<open>how many of the three text fields report focus\<close>
  "focusedCount m =
     (if ti_focus (urlInput m) then 1 else 0) + (if ta_focus (headerInput m) then 1 else 0)
     + (if ta_focus (bodyInput m) then 1 else 0)"

text \<open>
  The values that the entries visited by \<open>range\<close> put under a canonical key, in the order of
  the visit; and what one entry of the requests directory contributes to the loaded list.
\<close>

definition headerValues :: "string \<Rightarrow> (string \<times> string) list \<Rightarrow> string list" where
  "headerValues K kvs = map snd (filter (\<lambda>(k, v). CanonicalMIMEHeaderKey k = K) kvs)"

definition savedRequestOf :: "fs_env \<Rightarrow> DirEntry \<Rightarrow> HTTPRequest option" where
  "savedRequestOf fs file =
     (if \<not> de_IsDir file \<and> HasSuffix (de_Name file) ''.json''
      then (case ReadFile fs (filepath_Join ''requests'' (de_Name file)) of
              Inl _ \<Rightarrow> None
            | Inr data \<Rightarrow> (case json_Unmarshal fs data of Inl _ \<Rightarrow> None | Inr req \<Rightarrow> Some req))
      else None)"

text \<open>
  For the concrete runs below: widgets that leave themselves unchanged whatever the message,
  and the messages of a named key and of typed runes as the terminal library delivers them.
\<close>

definition still_ui :: ui_env where
  "still_ui =
     \<lparr>textinput_Update = (\<lambda>w msg. (w, CmdNil)), textarea_Update = (\<lambda>w msg. (w, CmdNil)),
      list_Update = (\<lambda>l msg. (l, CmdNil)), viewport_Update = (\<lambda>v msg. (v, CmdNil)),
      spinner_Update = (\<lambda>s msg. (s, spinner_Tick)), Render_Bold = (\<lambda>s. s),
      rangeMap = (\<lambda>h. [])\<rparr>"

definition key :: "KeyType \<Rightarrow> Msg" where
  "key t = KeyMsg \<lparr>Type = t, Runes = [], Alt = False\<rparr>"

definition rune :: "string \<Rightarrow> Msg" where
  "rune r = KeyMsg \<lparr>Type = KeyRunes, Runes = r, Alt = False\<rparr>"

section \<open>Facts about the model\<close>

lemmas update_defs =
  Update_def handleMsg_def handleKey_def navigate_def componentUpdates_def isNavigationKey_def
  KeyMsg_String_def key_def rune_def still_ui_def initialModel_def textinput_Focus_def
  textinput_Blur_def textarea_Focus_def textarea_Blur_def list_Select_def list_SetItems_def
  indexOf_def httpMethods_def slice_at_def viewport_SetContent_def

lemma indexOf_httpMethods: "0 \<le> indexOf v httpMethods \<and> indexOf v httpMethods < 7"
  by (simp add: indexOf_def httpMethods_def)

lemma focus_cases:
  "focus m = Some FocusURL \<longleftrightarrow>
     ti_focus (urlInput m) \<and> \<not> ta_focus (headerInput m) \<and> \<not> ta_focus (bodyInput m)"
  "focus m = Some FocusMethod \<longleftrightarrow>
     \<not> ti_focus (urlInput m) \<and> \<not> ta_focus (headerInput m) \<and> \<not> ta_focus (bodyInput m)"
  "focus m = Some FocusHeaders \<longleftrightarrow>
     \<not> ti_focus (urlInput m) \<and> ta_focus (headerInput m) \<and> \<not> ta_focus (bodyInput m)"
  "focus m = Some FocusBody \<longleftrightarrow>
     \<not> ti_focus (urlInput m) \<and> \<not> ta_focus (headerInput m) \<and> ta_focus (bodyInput m)"
  by (auto simp: focus_def split: bool.splits)

lemma advance_four_times: "advance (advance (advance (advance f))) = f"
  by (cases f) simp_all

lemma send_key_is_no_navigation_key: "KeyMsg_String k = ''ctrl+s'' \<Longrightarrow> \<not> isNavigationKey k"
  by (cases "Type k") (auto simp: isNavigationKey_def KeyMsg_String_def split: if_splits)

text \<open>
  One navigation step in the edit form: the focus moves to the next field of the cycle, and
  the cursor of the method list stays within the seven methods.
\<close>

lemma navigation_step:
  assumes "state m = stateEditRequest" and "isNavigationKey k" and "focus m = Some f"
    and "0 \<le> l_index (methodList m)" and "l_index (methodList m) < 7"
  shows "\<exists>m' cmd. Update ui m (KeyMsg k) = Inr (m', cmd) \<and> state m' = stateEditRequest
           \<and> focus m' = Some (advance f)
           \<and> 0 \<le> l_index (methodList m') \<and> l_index (methodList m') < 7"
proof (cases f)
  case FocusURL
  with assms show ?thesis
    using indexOf_httpMethods [of "Method (currentRequest m)"]
    by (simp add: focus_cases Update_def handleMsg_def navigate_def textinput_Blur_def
        list_Select_def)
next
  case FocusMethod
  with assms show ?thesis
    by (simp add: focus_cases Update_def handleMsg_def navigate_def textarea_Focus_def
        slice_at_def httpMethods_def)
next
  case FocusHeaders
  with assms show ?thesis
    by (simp add: focus_cases Update_def handleMsg_def navigate_def textarea_Focus_def
        textarea_Blur_def)
next
  case FocusBody
  with assms show ?thesis
    by (simp add: focus_cases Update_def handleMsg_def navigate_def textinput_Focus_def
        textarea_Blur_def)
qed

text \<open>
  Every step of \<open>Update\<close> keeps at most one text field focused, but for one: the key that
  enters the edit form from the main screen while the headers or the body field is still
  focused.
\<close>

lemma focusedCount_kept:
  assumes "Update ui m msg = Inr (m', cmd)" and "focusedCount m \<le> 1"
    and "\<not> (state m = stateMain \<and> (ta_focus (headerInput m) \<or> ta_focus (bodyInput m)) \<and>
            (\<exists>k. msg = KeyMsg k \<and> (KeyMsg_String k = ''e'' \<or> KeyMsg_String k = ''n'')))"
  shows "focusedCount m' \<le> 1"
  using assms
  by (cases msg; cases "state m")
     (auto simp: Update_def handleMsg_def handleKey_def navigate_def componentUpdates_def Let_def
        focusedCount_def textinput_Focus_def textinput_Blur_def textarea_Focus_def
        textarea_Blur_def textinput_Reset_def textarea_SetWidth_def isTabKeyMsg_def
        split: if_splits option.splits prod.splits outcome.splits)

subsection \<open>The header parser\<close>

lemma map_of_rev_Cons: "h ++ map_of (rev ((k, v) # ps)) = h(k \<mapsto> v) ++ map_of (rev ps)"
proof -
  have "map_of (rev ((k, v) # ps)) = [k \<mapsto> v] ++ map_of (rev ps)"
    by (simp only: rev.simps map_of_append) simp
  then have "h ++ map_of (rev ((k, v) # ps)) = (h ++ [k \<mapsto> v]) ++ map_of (rev ps)"
    by (simp only: map_add_assoc)
  then show ?thesis by simp
qed

lemma parseHeaders_loop_spec:
  "parseHeaders_loop ls h =
     h ++ map_of (rev (List.map_filter spec_header_line
                         (filter (\<lambda>l. l \<noteq> []) (map TrimSpace ls))))"
proof (induction ls arbitrary: h)
  case Nil
  then show ?case by simp
next
  case (Cons l ls)
  let ?rest = "List.map_filter spec_header_line (filter (\<lambda>l. l \<noteq> []) (map TrimSpace ls))"
  let ?t = "TrimSpace l"
  show ?case
  proof (cases "?t = []")
    case True
    then show ?thesis using Cons.IH [of h] by simp
  next
    case False
    show ?thesis
    proof (cases "CHR '':'' \<in> set ?t")
      case True
      let ?k = "TrimSpace (takeWhile (\<lambda>c. c \<noteq> CHR '':'') ?t)"
      let ?v = "TrimSpace (tl (dropWhile (\<lambda>c. c \<noteq> CHR '':'') ?t))"
      have line: "spec_header_line ?t = Some (?k, ?v)"
        using True by (simp add: spec_header_line_def)
      have "parseHeaders_loop (l # ls) h = parseHeaders_loop ls (h(?k \<mapsto> ?v))"
        using True False by (simp add: Let_def numeral_2_eq_2)
      also have "\<dots> = h(?k \<mapsto> ?v) ++ map_of (rev ?rest)"
        by (rule Cons.IH)
      also have "\<dots> = h ++ map_of (rev ((?k, ?v) # ?rest))"
        by (rule map_of_rev_Cons [symmetric])
      finally have loop: "parseHeaders_loop (l # ls) h = h ++ map_of (rev ((?k, ?v) # ?rest))" .
      have "List.map_filter spec_header_line (filter (\<lambda>l. l \<noteq> []) (map TrimSpace (l # ls)))
              = (?k, ?v) # ?rest"
        using False line by simp
      with loop show ?thesis by (simp only:)
    next
      case no_colon: False
      have loop: "parseHeaders_loop (l # ls) h = h ++ map_of (rev ?rest)"
        using no_colon False Cons.IH [of h] by (simp add: Let_def numeral_2_eq_2)
      have "List.map_filter spec_header_line (filter (\<lambda>l. l \<noteq> []) (map TrimSpace (l # ls)))
              = ?rest"
        using no_colon False by (simp add: spec_header_line_def)
      with loop show ?thesis by (simp only:)
    qed
  qed
qed

subsection \<open>The header of the outgoing request\<close>

lemma canonical_content_type: "CanonicalMIMEHeaderKey ''Content-Type'' = ''Content-Type''"
  by code_simp

lemma canonical_lower_case: "CanonicalMIMEHeaderKey ''content-type'' = ''Content-Type''"
  by code_simp

lemma canonical_accept: "CanonicalMIMEHeaderKey ''Accept'' = ''Accept''"
  by code_simp

lemma addHeaders_lookup:
  "addHeaders kvs h K =
     (if headerValues K kvs = [] then h K
      else Some ((case h K of None \<Rightarrow> [] | Some ws \<Rightarrow> ws) @ headerValues K kvs))"
proof (induction kvs arbitrary: h)
  case Nil
  then show ?case by (simp add: addHeaders_def headerValues_def)
next
  case (Cons kv kvs)
  obtain k v where kv: "kv = (k, v)" by (cases kv)
  have step: "addHeaders (kv # kvs) h = addHeaders kvs (Header_Add h k v)"
    by (simp add: addHeaders_def kv)
  show ?case
  proof (cases "CanonicalMIMEHeaderKey k = K")
    case True
    then have hv: "headerValues K (kv # kvs) = v # headerValues K kvs"
      by (simp add: headerValues_def kv)
    have "Header_Add h k v K = Some ((case h K of None \<Rightarrow> [] | Some ws \<Rightarrow> ws) @ [v])"
      using True by (simp add: Header_Add_def Let_def split: option.splits)
    then show ?thesis
      unfolding step hv Cons.IH by simp
  next
    case False
    then have hv: "headerValues K (kv # kvs) = headerValues K kvs"
      by (simp add: headerValues_def kv)
    have "Header_Add h k v K = h K"
      using False by (simp add: Header_Add_def Let_def)
    then show ?thesis
      unfolding step hv Cons.IH by simp
  qed
qed

lemma Header_Get_addHeaders:
  "Header_Get (addHeaders kvs Map.empty) ''Content-Type'' =
     (case headerValues ''Content-Type'' kvs of [] \<Rightarrow> [] | v # _ \<Rightarrow> v)"
  by (simp add: Header_Get_def canonical_content_type addHeaders_lookup split: list.splits)

lemma headerValues_set:
  "set (headerValues K kvs) = {v. \<exists>k. (k, v) \<in> set kvs \<and> CanonicalMIMEHeaderKey k = K}"
  by (force simp: headerValues_def)

lemma filter_single:
  "distinct xs \<Longrightarrow> x \<in> set xs \<Longrightarrow> P x \<Longrightarrow> (\<And>y. y \<in> set xs \<Longrightarrow> P y \<Longrightarrow> y = x)
     \<Longrightarrow> filter P xs = [x]"
proof (induction xs)
  case Nil
  then show ?case by simp
next
  case (Cons a xs)
  show ?case
  proof (cases "a = x")
    case True
    have "filter P xs = []"
    proof (rule ccontr)
      assume "filter P xs \<noteq> []"
      then obtain y where "y \<in> set xs" "P y"
        by (metis filter_False)
      then have "y = x" using Cons.prems(4) by simp
      with \<open>y \<in> set xs\<close> True Cons.prems(1) show False by simp
    qed
    with True Cons.prems(3) show ?thesis by simp
  next
    case False
    then have "x \<in> set xs" using Cons.prems(2) by simp
    moreover have "\<not> P a" using Cons.prems(4) [of a] False by auto
    moreover have "distinct xs" using Cons.prems(1) by simp
    moreover have "\<And>y. y \<in> set xs \<Longrightarrow> P y \<Longrightarrow> y = x"
      using Cons.prems(4) by (metis list.set_intros(2))
    ultimately have "filter P xs = [x]" "\<not> P a"
      using Cons.IH [OF _ _ Cons.prems(3)] by blast+
    then show ?thesis by simp
  qed
qed

lemma outgoingRequest_header:
  assumes "NewRequest_error net (Method req) (URL req)
             (if Body req \<noteq> [] then Some (Body req) else None) = None"
  shows "\<exists>httpReq. outgoingRequest net req = Inr httpReq \<and>
           rq_Header httpReq =
             (let header = addHeaders (rangeHeaders net (Headers req)) Map.empty
              in if Body req \<noteq> [] \<and> Header_Get header ''Content-Type'' = []
                 then header(''Content-Type'' \<mapsto> [''application/json''])
                 else header)"
  using assms
  by (simp add: outgoingRequest_def Let_def Header_Set_def canonical_content_type)

subsection \<open>The loop over the requests directory\<close>

lemma loadSavedRequests_loop_map_filter:
  "loadSavedRequests_loop fs files requests = requests @ List.map_filter (savedRequestOf fs) files"
  by (induction files arbitrary: requests)
     (simp_all add: savedRequestOf_def split: sum.splits)

section \<open>The claims\<close>

subsection \<open>C1: sending while a send is outstanding\<close>

text \<open>
  C1, as the code has it. \<open>Update\<close> never reads \<open>loading\<close> before it dispatches a send. On the
  main screen the enter key dispatches a send exactly when the URL is not empty, whether a
  send is outstanding or not: \<open>loading\<close> is true afterwards and the request draft is
  unchanged. With an empty URL nothing is dispatched and the state is unchanged. In the edit
  form, ctrl+s always dispatches a send, returns to the main screen and sets \<open>loading\<close>.
\<close>

theorem send_not_gated_by_busy:
  "(state m = stateMain \<and> KeyMsg_String k = ''enter'' \<and> URL (currentRequest m) \<noteq> [] \<longrightarrow>
      Update ui m (KeyMsg k)
        = Inr (m\<lparr>loading := True\<rparr>, tea_Batch [spinner_Tick, Cmd_sendRequest (currentRequest m)]))
   \<and> (state m = stateMain \<and> KeyMsg_String k = ''enter'' \<and> URL (currentRequest m) = [] \<longrightarrow>
      Update ui m (KeyMsg k) = Inr (m, tea_Batch []))
   \<and> (state m = stateEditRequest \<and> KeyMsg_String k = ''ctrl+s'' \<longrightarrow>
      Update ui m (KeyMsg k)
        = Inr (m\<lparr>state := stateMain, loading := True\<rparr>,
               tea_Batch [spinner_Tick, Cmd_sendRequest (currentRequest m)]))"
proof (intro conjI impI)
  assume "state m = stateMain \<and> KeyMsg_String k = ''enter'' \<and> URL (currentRequest m) \<noteq> []"
  then show "Update ui m (KeyMsg k)
        = Inr (m\<lparr>loading := True\<rparr>, tea_Batch [spinner_Tick, Cmd_sendRequest (currentRequest m)])"
    by (simp add: Update_def handleMsg_def handleKey_def)
next
  assume "state m = stateMain \<and> KeyMsg_String k = ''enter'' \<and> URL (currentRequest m) = []"
  then show "Update ui m (KeyMsg k) = Inr (m, tea_Batch [])"
    by (simp add: Update_def handleMsg_def handleKey_def componentUpdates_def)
next
  assume edit: "state m = stateEditRequest \<and> KeyMsg_String k = ''ctrl+s''"
  then have "\<not> isNavigationKey k" by (simp add: send_key_is_no_navigation_key)
  with edit show "Update ui m (KeyMsg k)
        = Inr (m\<lparr>state := stateMain, loading := True\<rparr>,
               tea_Batch [spinner_Tick, Cmd_sendRequest (currentRequest m)])"
    by (simp add: Update_def handleMsg_def handleKey_def)
qed

text \<open>
  The three cases at concrete states: the main screen with a URL while a send is
  outstanding, the main screen without a URL, and the edit form.
\<close>

theorem send_not_gated_by_busy_witness:
  "Update still_ui
     (initialModel\<lparr>currentRequest := (currentRequest initialModel)\<lparr>URL := ''https://example.com''\<rparr>,
                    loading := True\<rparr>)
     (key KeyEnter)
   = Inr (initialModel\<lparr>currentRequest := (currentRequest initialModel)\<lparr>URL := ''https://example.com''\<rparr>,
                       loading := True\<rparr>,
          tea_Batch [spinner_Tick,
            Cmd_sendRequest ((currentRequest initialModel)\<lparr>URL := ''https://example.com''\<rparr>)])
   \<and> Update still_ui initialModel (key KeyEnter) = Inr (initialModel, tea_Batch [])
   \<and> Update still_ui (initialModel\<lparr>state := stateEditRequest\<rparr>) (key KeyCtrlS)
       = Inr (initialModel\<lparr>state := stateMain, loading := True\<rparr>,
              tea_Batch [spinner_Tick, Cmd_sendRequest (currentRequest initialModel)])"
  using
    send_not_gated_by_busy
      [of "initialModel\<lparr>currentRequest := (currentRequest initialModel)\<lparr>URL := ''https://example.com''\<rparr>,
                        loading := True\<rparr>"
          "\<lparr>Type = KeyEnter, Runes = [], Alt = False\<rparr>" still_ui]
    send_not_gated_by_busy [of initialModel "\<lparr>Type = KeyEnter, Runes = [], Alt = False\<rparr>" still_ui]
    send_not_gated_by_busy
      [of "initialModel\<lparr>state := stateEditRequest\<rparr>" "\<lparr>Type = KeyCtrlS, Runes = [], Alt = False\<rparr>"
          still_ui]
  by (simp add: key_def KeyMsg_String_def initialModel_def)

text \<open>
  Against C1 as stated: a send is outstanding (\<open>loading\<close> is true), the enter key arrives on
  the main screen, and the command returned holds a second send of the request.
\<close>

theorem send_while_busy_dispatches:
  "Update still_ui
     (initialModel\<lparr>currentRequest := (currentRequest initialModel)\<lparr>URL := ''https://example.com''\<rparr>,
                    loading := True\<rparr>)
     (key KeyEnter)
   = Inr (initialModel\<lparr>currentRequest := (currentRequest initialModel)\<lparr>URL := ''https://example.com''\<rparr>,
                       loading := True\<rparr>,
          tea_Batch [spinner_Tick,
            Cmd_sendRequest ((currentRequest initialModel)\<lparr>URL := ''https://example.com''\<rparr>)])"
  by (simp add: update_defs)

subsection \<open>C2: full-circle navigation\<close>

text \<open>
  C2. In the edit form, from any of the four logical fields (with the cursor of the method
  list on one of the seven methods), four navigation keys are handled without a panic; after
  each of them exactly one logical field holds the focus, the next one of the cycle, and
  after the fourth it is the field the run started from.
\<close>

theorem full_circle_navigation:
  assumes "state m = stateEditRequest" and "isNavigationKey k" and "focus m = Some f"
    and "0 \<le> l_index (methodList m)" and "l_index (methodList m) < int (length httpMethods)"
  shows "\<exists>m1 m2 m3 m4.
           run ui m [KeyMsg k] = Inr m1 \<and> focus m1 = Some (advance f)
         \<and> run ui m [KeyMsg k, KeyMsg k] = Inr m2 \<and> focus m2 = Some (advance (advance f))
         \<and> run ui m [KeyMsg k, KeyMsg k, KeyMsg k] = Inr m3
         \<and> focus m3 = Some (advance (advance (advance f)))
         \<and> run ui m [KeyMsg k, KeyMsg k, KeyMsg k, KeyMsg k] = Inr m4 \<and> focus m4 = Some f
         \<and> state m4 = stateEditRequest"
proof -
  have r: "l_index (methodList m) < 7" using assms(5) by (simp add: httpMethods_def)
  obtain m1 c1 where 1: "Update ui m (KeyMsg k) = Inr (m1, c1)" "state m1 = stateEditRequest"
      "focus m1 = Some (advance f)" "0 \<le> l_index (methodList m1)" "l_index (methodList m1) < 7"
    using navigation_step [OF assms(1-4) r] by blast
  obtain m2 c2 where 2: "Update ui m1 (KeyMsg k) = Inr (m2, c2)" "state m2 = stateEditRequest"
      "focus m2 = Some (advance (advance f))" "0 \<le> l_index (methodList m2)"
      "l_index (methodList m2) < 7"
    using navigation_step [OF 1(2) assms(2) 1(3-5)] by blast
  obtain m3 c3 where 3: "Update ui m2 (KeyMsg k) = Inr (m3, c3)" "state m3 = stateEditRequest"
      "focus m3 = Some (advance (advance (advance f)))" "0 \<le> l_index (methodList m3)"
      "l_index (methodList m3) < 7"
    using navigation_step [OF 2(2) assms(2) 2(3-5)] by blast
  obtain m4 c4 where 4: "Update ui m3 (KeyMsg k) = Inr (m4, c4)" "state m4 = stateEditRequest"
      "focus m4 = Some (advance (advance (advance (advance f))))"
    using navigation_step [OF 3(2) assms(2) 3(3-5)] by blast
  have "run ui m [KeyMsg k] = Inr m1" using 1(1) by simp
  moreover have "run ui m [KeyMsg k, KeyMsg k] = Inr m2" using 1(1) 2(1) by simp
  moreover have "run ui m [KeyMsg k, KeyMsg k, KeyMsg k] = Inr m3" using 1(1) 2(1) 3(1) by simp
  moreover have "run ui m [KeyMsg k, KeyMsg k, KeyMsg k, KeyMsg k] = Inr m4"
    using 1(1) 2(1) 3(1) 4(1) by simp
  ultimately show ?thesis
    using 1(3) 2(3) 3(3) 4(2,3) by (simp add: advance_four_times)
qed

text \<open>The run of the repository's test of the full circle: the tab key, from the URL field.\<close>

theorem full_circle_navigation_witness:
  "\<exists>m1 m2 m3 m4.
     run still_ui (initialModel\<lparr>state := stateEditRequest\<rparr>) [key KeyTab] = Inr m1
     \<and> focus m1 = Some FocusMethod
     \<and> run still_ui (initialModel\<lparr>state := stateEditRequest\<rparr>) [key KeyTab, key KeyTab] = Inr m2
     \<and> focus m2 = Some FocusHeaders
     \<and> run still_ui (initialModel\<lparr>state := stateEditRequest\<rparr>)
          [key KeyTab, key KeyTab, key KeyTab] = Inr m3
     \<and> focus m3 = Some FocusBody
     \<and> run still_ui (initialModel\<lparr>state := stateEditRequest\<rparr>)
          [key KeyTab, key KeyTab, key KeyTab, key KeyTab] = Inr m4
     \<and> focus m4 = Some FocusURL \<and> state m4 = stateEditRequest"
proof -
  have a: "state (initialModel\<lparr>state := stateEditRequest\<rparr>) = stateEditRequest" by simp
  have b: "isNavigationKey \<lparr>Type = KeyTab, Runes = [], Alt = False\<rparr>"
    by (simp add: isNavigationKey_def)
  have c: "focus (initialModel\<lparr>state := stateEditRequest\<rparr>) = Some FocusURL"
    by (simp add: focus_def initialModel_def textinput_Focus_def)
  have d: "0 \<le> l_index (methodList (initialModel\<lparr>state := stateEditRequest\<rparr>))"
    by (simp add: initialModel_def)
  have e: "l_index (methodList (initialModel\<lparr>state := stateEditRequest\<rparr>)) < int (length httpMethods)"
    by (simp add: initialModel_def httpMethods_def)
  show ?thesis
    using full_circle_navigation [OF a b c d e, of still_ui] by (simp add: key_def)
qed

subsection \<open>C3: at most one text field is focused\<close>

text \<open>
  C3 fails on the code. From the initial state: enter the edit form, move the focus to the
  headers field, leave with escape, enter again. The escape key does not blur the headers
  field and entering focuses the URL field, so the edit form now has two text fields
  focused and no logical focus. Every other step keeps at most one text field focused
  (\<open>focusedCount_kept\<close>).
\<close>

theorem reentry_focuses_two_fields:
  "(case run still_ui initialModel
           [rune ''e'', key KeyTab, key KeyTab, key KeyEsc, rune ''e''] of
      Inl p \<Rightarrow> False
    | Inr m \<Rightarrow> state m = stateEditRequest \<and> ti_focus (urlInput m) \<and> ta_focus (headerInput m)
               \<and> focusedCount m = 2 \<and> focus m = None)"
  by (simp add: update_defs focus_def focusedCount_def)

subsection \<open>C4: the navigation key is never typed\<close>

text \<open>
  C4. In the edit form with a text field focused, a navigation key is handled without a
  panic and leaves the text of the URL, headers and body fields and the request draft as
  they were; the result is the same whatever the widgets would do with the key (\<open>ui'\<close> is
  any other set of widget functions), so no widget sees it.
\<close>

theorem navigation_key_never_typed:
  assumes "state m = stateEditRequest" and "isNavigationKey k"
    and "ti_focus (urlInput m) \<or> ta_focus (headerInput m) \<or> ta_focus (bodyInput m)"
  shows "\<exists>m' cmd. Update ui m (KeyMsg k) = Inr (m', cmd)
           \<and> ti_value (urlInput m') = ti_value (urlInput m)
           \<and> ta_value (headerInput m') = ta_value (headerInput m)
           \<and> ta_value (bodyInput m') = ta_value (bodyInput m)
           \<and> currentRequest m' = currentRequest m
           \<and> Update ui' m (KeyMsg k) = Inr (m', cmd)"
  using assms
  by (auto simp: Update_def handleMsg_def navigate_def textinput_Focus_def textinput_Blur_def
      textarea_Focus_def textarea_Blur_def list_Select_def)

text \<open>
  The body field is focused and holds a text; the widgets of this run would append a tab to
  their text if they were given the key.
\<close>

theorem navigation_key_never_typed_witness:
  "\<exists>m' cmd.
     Update (still_ui\<lparr>textarea_Update := (\<lambda>w msg. (w\<lparr>ta_value := ta_value w @ [CHR 0x09]\<rparr>, CmdNil))\<rparr>)
       (initialModel\<lparr>state := stateEditRequest, urlInput := textinput_Blur (urlInput initialModel),
                      bodyInput := \<lparr>ta_value = ''{}'', ta_focus = True, ta_width = 0\<rparr>\<rparr>)
       (key KeyTab) = Inr (m', cmd)
     \<and> ti_value (urlInput m') = [] \<and> ta_value (headerInput m') = [] \<and> ta_value (bodyInput m') = ''{}''"
proof -
  let ?m = "initialModel\<lparr>state := stateEditRequest, urlInput := textinput_Blur (urlInput initialModel),
                      bodyInput := \<lparr>ta_value = ''{}'', ta_focus = True, ta_width = 0\<rparr>\<rparr>"
  have a: "state ?m = stateEditRequest" by simp
  have b: "isNavigationKey \<lparr>Type = KeyTab, Runes = [], Alt = False\<rparr>"
    by (simp add: isNavigationKey_def)
  have c: "ti_focus (urlInput ?m) \<or> ta_focus (headerInput ?m) \<or> ta_focus (bodyInput ?m)"
    by simp
  from navigation_key_never_typed [OF a b c,
        of "still_ui\<lparr>textarea_Update := (\<lambda>w msg. (w\<lparr>ta_value := ta_value w @ [CHR 0x09]\<rparr>, CmdNil))\<rparr>"
           still_ui]
  obtain m' cmd where
    "Update (still_ui\<lparr>textarea_Update := (\<lambda>w msg. (w\<lparr>ta_value := ta_value w @ [CHR 0x09]\<rparr>, CmdNil))\<rparr>)
       ?m (KeyMsg \<lparr>Type = KeyTab, Runes = [], Alt = False\<rparr>) = Inr (m', cmd)"
    "ti_value (urlInput m') = ti_value (urlInput ?m)"
    "ta_value (headerInput m') = ta_value (headerInput ?m)"
    "ta_value (bodyInput m') = ta_value (bodyInput ?m)"
    by blast
  then have
    "Update (still_ui\<lparr>textarea_Update := (\<lambda>w msg. (w\<lparr>ta_value := ta_value w @ [CHR 0x09]\<rparr>, CmdNil))\<rparr>)
       ?m (key KeyTab) = Inr (m', cmd)
     \<and> ti_value (urlInput m') = [] \<and> ta_value (headerInput m') = []
     \<and> ta_value (bodyInput m') = ''{}''"
    by (simp add: key_def initialModel_def textinput_Blur_def textinput_Focus_def)
  then show ?thesis by blast
qed

subsection \<open>C5: what navigation does to the request draft\<close>

text \<open>
  C5, as the code has it. A navigation key in the edit form leaves name, URL, headers and
  body of the request draft unchanged. The method is unchanged too, except in the step that
  leaves the Method position: that step stores in the draft the method the cursor of the
  method list is on.
\<close>

theorem navigation_changes_only_method:
  assumes "state m = stateEditRequest" and "isNavigationKey k"
    and "Update ui m (KeyMsg k) = Inr (m', cmd)"
  shows "currentRequest m' =
           (if focus m = Some FocusMethod
            then (currentRequest m)\<lparr>Method := httpMethods ! nat (l_index (methodList m))\<rparr>
            else currentRequest m)"
  using assms
  by (auto simp: focus_cases Update_def handleMsg_def navigate_def slice_at_def
      split: if_splits option.splits)

text \<open>
  At the Method position with the cursor on the second method, the tab key stores \<open>POST\<close>
  in a draft whose method was \<open>GET\<close>.
\<close>

theorem navigation_changes_only_method_witness:
  "Update still_ui
     (initialModel\<lparr>state := stateEditRequest, urlInput := textinput_Blur (urlInput initialModel),
                    methodList := list_Select (methodList initialModel) 1\<rparr>)
     (key KeyTab)
   = Inr (initialModel\<lparr>state := stateEditRequest, urlInput := textinput_Blur (urlInput initialModel),
                    methodList := list_Select (methodList initialModel) 1,
                    currentRequest := (currentRequest initialModel)\<lparr>Method := ''POST''\<rparr>,
                    headerInput := textarea_Focus (headerInput initialModel)\<rparr>, textarea_Blink)
   \<and> currentRequest
         (initialModel\<lparr>state := stateEditRequest, urlInput := textinput_Blur (urlInput initialModel),
                    methodList := list_Select (methodList initialModel) 1,
                    currentRequest := (currentRequest initialModel)\<lparr>Method := ''POST''\<rparr>,
                    headerInput := textarea_Focus (headerInput initialModel)\<rparr>)
       = (currentRequest initialModel)\<lparr>Method := ''POST''\<rparr>"
proof -
  let ?m = "initialModel\<lparr>state := stateEditRequest, urlInput := textinput_Blur (urlInput initialModel),
                    methodList := list_Select (methodList initialModel) 1\<rparr>"
  let ?m' = "initialModel\<lparr>state := stateEditRequest, urlInput := textinput_Blur (urlInput initialModel),
                    methodList := list_Select (methodList initialModel) 1,
                    currentRequest := (currentRequest initialModel)\<lparr>Method := ''POST''\<rparr>,
                    headerInput := textarea_Focus (headerInput initialModel)\<rparr>"
  have a: "state ?m = stateEditRequest" by simp
  have b: "isNavigationKey \<lparr>Type = KeyTab, Runes = [], Alt = False\<rparr>"
    by (simp add: isNavigationKey_def)
  have c: "Update still_ui ?m (KeyMsg \<lparr>Type = KeyTab, Runes = [], Alt = False\<rparr>)
             = Inr (?m', textarea_Blink)"
    by (simp add: update_defs)
  have d: "focus ?m = Some FocusMethod"
    by (simp add: focus_def initialModel_def textinput_Blur_def textinput_Focus_def)
  have "currentRequest ?m' = (currentRequest initialModel)\<lparr>Method := ''POST''\<rparr>"
    using navigation_changes_only_method [OF a b c] d
    by (simp add: httpMethods_def list_Select_def)
  with c show ?thesis by (simp add: key_def)
qed

text \<open>
  Against C5 as stated: a saved request with the method \<open>FOO\<close> is loaded and the edit form
  entered; one tab later the draft still has \<open>FOO\<close>, after the second tab it has \<open>GET\<close>.
\<close>

theorem navigation_rewrites_loaded_method:
  "map_sum id (\<lambda>m. Method (currentRequest m))
     (run still_ui initialModel
        [savedRequestsMsg
           [\<lparr>Name = ''x'', Method = ''FOO'', URL = ''https://a/b'', Headers = Map.empty, Body = []\<rparr>],
         rune ''l'', key KeyEnter, rune ''e'', key KeyTab]) = Inr ''FOO''
   \<and> map_sum id (\<lambda>m. Method (currentRequest m))
     (run still_ui initialModel
        [savedRequestsMsg
           [\<lparr>Name = ''x'', Method = ''FOO'', URL = ''https://a/b'', Headers = Map.empty, Body = []\<rparr>],
         rune ''l'', key KeyEnter, rune ''e'', key KeyTab, key KeyTab]) = Inr ''GET''"
  by (simp add: update_defs)

subsection \<open>C6: the header parser\<close>

text \<open>
  C6. \<open>parseHeaders\<close> computes what the algorithm of the specification computes
  (\<open>spec_parseHeaders\<close>), on every input; on the input made of a line of two spaces, the
  line \<open>NoColonHere\<close> and the line \<open>A: B\<close> followed by two spaces, the result is the map with
  the single entry from \<open>A\<close> to \<open>B\<close>.
\<close>

theorem parseHeaders_meets_spec:
  "parseHeaders input = spec_parseHeaders input
   \<and> parseHeaders ([CHR 0x20, CHR 0x20, CHR 0x0A] @ ''NoColonHere'' @ [CHR 0x0A] @ ''A: B  '')
       = [''A'' \<mapsto> ''B'']"
proof
  show "parseHeaders input = spec_parseHeaders input"
    by (simp add: parseHeaders_def spec_parseHeaders_def parseHeaders_loop_spec)
  show "parseHeaders ([CHR 0x20, CHR 0x20, CHR 0x0A] @ ''NoColonHere'' @ [CHR 0x0A] @ ''A: B  '')
       = [''A'' \<mapsto> ''B'']"
    by (simp add: parseHeaders_def TrimSpace_def spaceWidth_def asciiSpace_def isPrefixOf_def
        unicodeSpaces_def Let_def numeral_2_eq_2)
qed

subsection \<open>C7: the default content type\<close>

text \<open>
  C7, as the code has it. Let the construction of the request succeed and \<open>range\<close> visit
  every header of the request once. With a non-empty body: when no header of the request
  has a key that canonicalises to \<open>Content-Type\<close>, or every such header has the empty value,
  the outgoing \<open>Content-Type\<close> is \<open>application/json\<close> alone (an empty value counts as not
  supplied and is replaced); when there are such headers and their values are non-empty,
  the outgoing header is exactly what the headers of the request give, and a single such
  header is sent with its value as given. With an empty body the outgoing header is
  exactly what the headers of the request give: no default is added. In every case, also
  when headers with an empty and with a non-empty value both canonicalise to
  \<open>Content-Type\<close>, the first of them that \<open>range\<close> visits decides: with a non-empty body
  the default replaces all of them exactly when there is none or the first one visited has
  the empty value (last clause).
\<close>

theorem content_type_default:
  assumes ok: "NewRequest_error net (Method req) (URL req)
                 (if Body req \<noteq> [] then Some (Body req) else None) = None"
    and enum: "map_of (rangeHeaders net (Headers req)) = Headers req"
    and dist: "distinct (map fst (rangeHeaders net (Headers req)))"
  shows "\<exists>httpReq. outgoingRequest net req = Inr httpReq
     \<and> (Body req \<noteq> [] \<and>
          (\<forall>k v. Headers req k = Some v \<and> CanonicalMIMEHeaderKey k = ''Content-Type'' \<longrightarrow> v = [])
        \<longrightarrow> rq_Header httpReq ''Content-Type'' = Some [''application/json''])
     \<and> (Body req = [] \<or>
          ((\<exists>k. Headers req k \<noteq> None \<and> CanonicalMIMEHeaderKey k = ''Content-Type'') \<and>
           (\<forall>k v. Headers req k = Some v \<and> CanonicalMIMEHeaderKey k = ''Content-Type'' \<longrightarrow> v \<noteq> []))
        \<longrightarrow> rq_Header httpReq = addHeaders (rangeHeaders net (Headers req)) Map.empty)
     \<and> (\<forall>k v. Body req \<noteq> [] \<and> Headers req k = Some v \<and> v \<noteq> [] \<and>
            CanonicalMIMEHeaderKey k = ''Content-Type'' \<and>
            (\<forall>k'. Headers req k' \<noteq> None \<and> CanonicalMIMEHeaderKey k' = ''Content-Type'' \<longrightarrow> k' = k)
        \<longrightarrow> rq_Header httpReq ''Content-Type'' = Some [v])
     \<and> (Body req = [] \<and> (\<forall>k. Headers req k \<noteq> None \<longrightarrow> CanonicalMIMEHeaderKey k \<noteq> ''Content-Type'')
        \<longrightarrow> rq_Header httpReq ''Content-Type'' = None)
     \<and> rq_Header httpReq =
         (if Body req \<noteq> [] \<and>
             (case headerValues ''Content-Type'' (rangeHeaders net (Headers req)) of
                [] \<Rightarrow> True
              | v # _ \<Rightarrow> v = [])
          then (addHeaders (rangeHeaders net (Headers req)) Map.empty)
                 (''Content-Type'' \<mapsto> [''application/json''])
          else addHeaders (rangeHeaders net (Headers req)) Map.empty)"
proof -
  let ?kvs = "rangeHeaders net (Headers req)"
  let ?H = "addHeaders ?kvs Map.empty"
  let ?vals = "headerValues ''Content-Type'' ?kvs"
  let ?CT = "''Content-Type''"
  have mem: "(k, v) \<in> set ?kvs \<longleftrightarrow> Headers req k = Some v" for k v
    using map_of_eq_Some_iff [OF dist, of k v] enum by simp
  have vals: "v \<in> set ?vals \<longleftrightarrow> (\<exists>k. Headers req k = Some v \<and> CanonicalMIMEHeaderKey k = ?CT)" for v
    by (simp add: headerValues_set mem)
  have H: "?H ?CT = (if ?vals = [] then None else Some ?vals)"
    by (simp add: addHeaders_lookup)
  have get: "Header_Get ?H ?CT = (case ?vals of [] \<Rightarrow> [] | v # _ \<Rightarrow> v)"
    by (rule Header_Get_addHeaders)
  obtain httpReq where out: "outgoingRequest net req = Inr httpReq"
    and hdr: "rq_Header httpReq =
               (if Body req \<noteq> [] \<and> Header_Get ?H ?CT = []
                then ?H(?CT \<mapsto> [''application/json'']) else ?H)"
    using outgoingRequest_header [OF ok] by (auto simp: Let_def)
  have c1: "rq_Header httpReq ?CT = Some [''application/json'']"
    if "Body req \<noteq> []"
      and "\<forall>k v. Headers req k = Some v \<and> CanonicalMIMEHeaderKey k = ?CT \<longrightarrow> v = []"
  proof -
    have "Header_Get ?H ?CT = []"
    proof (cases ?vals)
      case Nil
      then show ?thesis by (simp add: get)
    next
      case (Cons v vs)
      then have "v \<in> set ?vals" by simp
      then have "v = []" using that(2) vals by blast
      then show ?thesis by (simp add: get Cons)
    qed
    then show ?thesis using that(1) by (simp add: hdr)
  qed
  have c2: "rq_Header httpReq = ?H"
    if "Body req = [] \<or>
          ((\<exists>k. Headers req k \<noteq> None \<and> CanonicalMIMEHeaderKey k = ?CT) \<and>
           (\<forall>k v. Headers req k = Some v \<and> CanonicalMIMEHeaderKey k = ?CT \<longrightarrow> v \<noteq> []))"
  proof (cases "Body req = []")
    case True
    then show ?thesis by (simp add: hdr)
  next
    case False
    with that obtain k v where kv: "Headers req k = Some v" "CanonicalMIMEHeaderKey k = ?CT"
      and ne: "\<forall>k v. Headers req k = Some v \<and> CanonicalMIMEHeaderKey k = ?CT \<longrightarrow> v \<noteq> []"
      by auto
    from kv have "v \<in> set ?vals" using vals by blast
    then obtain w ws where Cons: "?vals = w # ws" by (cases ?vals) auto
    then have "w \<in> set ?vals" by simp
    then have "w \<noteq> []" using ne vals by blast
    then have "Header_Get ?H ?CT \<noteq> []" by (simp add: get Cons)
    then show ?thesis by (simp add: hdr)
  qed
  have c3: "rq_Header httpReq ?CT = Some [v]"
    if "Body req \<noteq> []" and kv: "Headers req k = Some v" and "v \<noteq> []"
      and "CanonicalMIMEHeaderKey k = ?CT"
      and only: "\<forall>k'. Headers req k' \<noteq> None \<and> CanonicalMIMEHeaderKey k' = ?CT \<longrightarrow> k' = k"
    for k v
  proof -
    have "filter (\<lambda>(k', v'). CanonicalMIMEHeaderKey k' = ?CT) ?kvs = [(k, v)]"
    proof (rule filter_single)
      show "distinct ?kvs" using dist by (rule distinct_map [THEN iffD1, THEN conjunct1])
      show "(k, v) \<in> set ?kvs" using kv mem by simp
      show "case (k, v) of (k', v') \<Rightarrow> CanonicalMIMEHeaderKey k' = ?CT" using that(4) by simp
    next
      fix y assume y: "y \<in> set ?kvs" "case y of (k', v') \<Rightarrow> CanonicalMIMEHeaderKey k' = ?CT"
      obtain k' v' where y': "y = (k', v')" by (cases y)
      with y have "Headers req k' = Some v'" "CanonicalMIMEHeaderKey k' = ?CT"
        using mem by auto
      then have "k' = k" using only by auto
      with \<open>Headers req k' = Some v'\<close> kv show "y = (k, v)" by (simp add: y')
    qed
    then have v1: "?vals = [v]" by (simp add: headerValues_def)
    then have "Header_Get ?H ?CT = v" by (simp add: get)
    then show ?thesis using that(3) v1 by (simp add: hdr H)
  qed
  have c4: "rq_Header httpReq ?CT = None"
    if "Body req = []" and "\<forall>k. Headers req k \<noteq> None \<longrightarrow> CanonicalMIMEHeaderKey k \<noteq> ?CT"
  proof -
    have "v \<notin> set ?vals" for v using that(2) vals [of v] by auto
    then have "?vals = []" by (cases ?vals) auto
    then show ?thesis using that(1) by (simp add: hdr H)
  qed
  show ?thesis
  proof (intro exI conjI impI allI)
    show "outgoingRequest net req = Inr httpReq" by (rule out)
  next
    assume "Body req \<noteq> [] \<and>
      (\<forall>k v. Headers req k = Some v \<and> CanonicalMIMEHeaderKey k = ?CT \<longrightarrow> v = [])"
    then show "rq_Header httpReq ?CT = Some [''application/json'']"
      using c1 by simp
  next
    assume "Body req = [] \<or>
          ((\<exists>k. Headers req k \<noteq> None \<and> CanonicalMIMEHeaderKey k = ?CT) \<and>
           (\<forall>k v. Headers req k = Some v \<and> CanonicalMIMEHeaderKey k = ?CT \<longrightarrow> v \<noteq> []))"
    then show "rq_Header httpReq = ?H" by (rule c2)
  next
    fix k v
    assume "Body req \<noteq> [] \<and> Headers req k = Some v \<and> v \<noteq> [] \<and>
            CanonicalMIMEHeaderKey k = ?CT \<and>
            (\<forall>k'. Headers req k' \<noteq> None \<and> CanonicalMIMEHeaderKey k' = ?CT \<longrightarrow> k' = k)"
    then show "rq_Header httpReq ?CT = Some [v]"
      using c3 [of k v] by simp
  next
    assume "Body req = [] \<and>
      (\<forall>k. Headers req k \<noteq> None \<longrightarrow> CanonicalMIMEHeaderKey k \<noteq> ?CT)"
    then show "rq_Header httpReq ?CT = None"
      using c4 by simp
  next
    show "rq_Header httpReq =
         (if Body req \<noteq> [] \<and> (case ?vals of [] \<Rightarrow> True | v # _ \<Rightarrow> v = [])
          then ?H(?CT \<mapsto> [''application/json'']) else ?H)"
      by (simp add: hdr get split: list.splits)
  qed
qed

text \<open>
  Four requests: a body and an \<open>Accept\<close> header only (the default is set), a body and a
  \<open>content-type\<close> header (sent as given under its canonical key), no body and an \<open>Accept\<close>
  header only (no default), and a body with the headers \<open>Content-Type\<close> of the empty value
  and \<open>content-type\<close> of the value \<open>text/plain\<close>, the empty one visited first (the
  default replaces both).
\<close>

theorem content_type_default_witness:
  "(\<exists>httpReq.
      outgoingRequest
        \<lparr>NewRequest_error = (\<lambda>method url body. None), client_Do = (\<lambda>r. Inl ''unreachable''),
         rangeHeaders = (\<lambda>h. [(''Accept'', ''text/html'')])\<rparr>
        \<lparr>Name = [], Method = ''POST'', URL = ''https://a/b'',
         Headers = [''Accept'' \<mapsto> ''text/html''], Body = ''{}''\<rparr> = Inr httpReq
      \<and> rq_Header httpReq ''Content-Type'' = Some [''application/json''])
   \<and> (\<exists>httpReq.
      outgoingRequest
        \<lparr>NewRequest_error = (\<lambda>method url body. None), client_Do = (\<lambda>r. Inl ''unreachable''),
         rangeHeaders = (\<lambda>h. [(''content-type'', ''text/plain'')])\<rparr>
        \<lparr>Name = [], Method = ''POST'', URL = ''https://a/b'',
         Headers = [''content-type'' \<mapsto> ''text/plain''], Body = ''{}''\<rparr> = Inr httpReq
      \<and> rq_Header httpReq ''Content-Type'' = Some [''text/plain''])
   \<and> (\<exists>httpReq.
      outgoingRequest
        \<lparr>NewRequest_error = (\<lambda>method url body. None), client_Do = (\<lambda>r. Inl ''unreachable''),
         rangeHeaders = (\<lambda>h. [(''Accept'', ''text/html'')])\<rparr>
        \<lparr>Name = [], Method = ''GET'', URL = ''https://a/b'',
         Headers = [''Accept'' \<mapsto> ''text/html''], Body = []\<rparr> = Inr httpReq
      \<and> rq_Header httpReq ''Content-Type'' = None)
   \<and> (\<exists>httpReq.
      outgoingRequest
        \<lparr>NewRequest_error = (\<lambda>method url body. None), client_Do = (\<lambda>r. Inl ''unreachable''),
         rangeHeaders = (\<lambda>h. [(''Content-Type'', []), (''content-type'', ''text/plain'')])\<rparr>
        \<lparr>Name = [], Method = ''POST'', URL = ''https://a/b'',
         Headers = [''content-type'' \<mapsto> ''text/plain'', ''Content-Type'' \<mapsto> []],
         Body = ''{}''\<rparr> = Inr httpReq
      \<and> rq_Header httpReq ''Content-Type'' = Some [''application/json''])"
proof (intro conjI)
  let ?net = "\<lparr>NewRequest_error = (\<lambda>method url body. None), client_Do = (\<lambda>r. Inl ''unreachable''),
         rangeHeaders = (\<lambda>h. [(''Accept'', ''text/html'')])\<rparr>"
  let ?req = "\<lparr>Name = [], Method = ''POST'', URL = ''https://a/b'',
         Headers = [''Accept'' \<mapsto> ''text/html''], Body = ''{}''\<rparr>"
  have ok: "NewRequest_error ?net (Method ?req) (URL ?req)
              (if Body ?req \<noteq> [] then Some (Body ?req) else None) = None" by simp
  have enum: "map_of (rangeHeaders ?net (Headers ?req)) = Headers ?req" by simp
  have dist: "distinct (map fst (rangeHeaders ?net (Headers ?req)))" by simp
  have none: "Body ?req \<noteq> [] \<and>
      (\<forall>k v. Headers ?req k = Some v \<and> CanonicalMIMEHeaderKey k = ''Content-Type'' \<longrightarrow> v = [])"
    by (auto simp: canonical_accept split: if_splits)
  from content_type_default [OF ok enum dist] none
  show "\<exists>httpReq. outgoingRequest ?net ?req = Inr httpReq
          \<and> rq_Header httpReq ''Content-Type'' = Some [''application/json'']"
    by blast
next
  let ?net = "\<lparr>NewRequest_error = (\<lambda>method url body. None), client_Do = (\<lambda>r. Inl ''unreachable''),
         rangeHeaders = (\<lambda>h. [(''content-type'', ''text/plain'')])\<rparr>"
  let ?req = "\<lparr>Name = [], Method = ''POST'', URL = ''https://a/b'',
         Headers = [''content-type'' \<mapsto> ''text/plain''], Body = ''{}''\<rparr>"
  have ok: "NewRequest_error ?net (Method ?req) (URL ?req)
              (if Body ?req \<noteq> [] then Some (Body ?req) else None) = None" by simp
  have enum: "map_of (rangeHeaders ?net (Headers ?req)) = Headers ?req" by simp
  have dist: "distinct (map fst (rangeHeaders ?net (Headers ?req)))" by simp
  have one: "Body ?req \<noteq> [] \<and> Headers ?req ''content-type'' = Some ''text/plain'' \<and>
      ''text/plain'' \<noteq> [] \<and> CanonicalMIMEHeaderKey ''content-type'' = ''Content-Type'' \<and>
      (\<forall>k'. Headers ?req k' \<noteq> None \<and> CanonicalMIMEHeaderKey k' = ''Content-Type''
            \<longrightarrow> k' = ''content-type'')"
    by (auto simp: canonical_lower_case split: if_splits)
  from content_type_default [OF ok enum dist] one
  show "\<exists>httpReq. outgoingRequest ?net ?req = Inr httpReq
          \<and> rq_Header httpReq ''Content-Type'' = Some [''text/plain'']"
    by blast
next
  let ?net = "\<lparr>NewRequest_error = (\<lambda>method url body. None), client_Do = (\<lambda>r. Inl ''unreachable''),
         rangeHeaders = (\<lambda>h. [(''Accept'', ''text/html'')])\<rparr>"
  let ?req = "\<lparr>Name = [], Method = ''GET'', URL = ''https://a/b'',
         Headers = [''Accept'' \<mapsto> ''text/html''], Body = []\<rparr>"
  have ok: "NewRequest_error ?net (Method ?req) (URL ?req)
              (if Body ?req \<noteq> [] then Some (Body ?req) else None) = None" by simp
  have enum: "map_of (rangeHeaders ?net (Headers ?req)) = Headers ?req" by simp
  have dist: "distinct (map fst (rangeHeaders ?net (Headers ?req)))" by simp
  have none: "Body ?req = [] \<and>
      (\<forall>k. Headers ?req k \<noteq> None \<longrightarrow> CanonicalMIMEHeaderKey k \<noteq> ''Content-Type'')"
    by (auto simp: canonical_accept split: if_splits)
  from content_type_default [OF ok enum dist] none
  show "\<exists>httpReq. outgoingRequest ?net ?req = Inr httpReq
          \<and> rq_Header httpReq ''Content-Type'' = None"
    by blast
next
  let ?net = "\<lparr>NewRequest_error = (\<lambda>method url body. None), client_Do = (\<lambda>r. Inl ''unreachable''),
         rangeHeaders = (\<lambda>h. [(''Content-Type'', []), (''content-type'', ''text/plain'')])\<rparr>"
  let ?req = "\<lparr>Name = [], Method = ''POST'', URL = ''https://a/b'',
         Headers = [''content-type'' \<mapsto> ''text/plain'', ''Content-Type'' \<mapsto> []],
         Body = ''{}''\<rparr>"
  have ok: "NewRequest_error ?net (Method ?req) (URL ?req)
              (if Body ?req \<noteq> [] then Some (Body ?req) else None) = None" by simp
  have enum: "map_of (rangeHeaders ?net (Headers ?req)) = Headers ?req" by simp
  have dist: "distinct (map fst (rangeHeaders ?net (Headers ?req)))" by simp
  have first: "Body ?req \<noteq> [] \<and>
      (case headerValues ''Content-Type'' (rangeHeaders ?net (Headers ?req)) of
         [] \<Rightarrow> True | v # _ \<Rightarrow> v = [])"
    by (simp add: headerValues_def canonical_content_type canonical_lower_case)
  from content_type_default [OF ok enum dist]
  obtain httpReq where out: "outgoingRequest ?net ?req = Inr httpReq"
    and exact: "rq_Header httpReq =
         (if Body ?req \<noteq> [] \<and>
             (case headerValues ''Content-Type'' (rangeHeaders ?net (Headers ?req)) of
                [] \<Rightarrow> True | v # _ \<Rightarrow> v = [])
          then (addHeaders (rangeHeaders ?net (Headers ?req)) Map.empty)
                 (''Content-Type'' \<mapsto> [''application/json''])
          else addHeaders (rangeHeaders ?net (Headers ?req)) Map.empty)"
    by blast
  from exact have "rq_Header httpReq =
      (addHeaders (rangeHeaders ?net (Headers ?req)) Map.empty)
        (''Content-Type'' \<mapsto> [''application/json''])"
    by (simp only: if_P [OF first])
  then have "rq_Header httpReq ''Content-Type'' = Some [''application/json'']"
    by (simp only: fun_upd_same)
  with out
  show "\<exists>httpReq. outgoingRequest ?net ?req = Inr httpReq
          \<and> rq_Header httpReq ''Content-Type'' = Some [''application/json'']"
    by blast
qed

text \<open>
  Against C7 as stated: the request has a body and the header \<open>Content-Type\<close> with the
  empty value (the header line \<open>Content-Type:\<close>); the outgoing request carries
  \<open>application/json\<close>, not the value supplied.
\<close>

theorem empty_content_type_overridden:
  "outgoingRequest
     \<lparr>NewRequest_error = (\<lambda>method url body. None), client_Do = (\<lambda>r. Inl ''unreachable''),
      rangeHeaders = (\<lambda>h. [(''Content-Type'', [])])\<rparr>
     \<lparr>Name = [], Method = ''POST'', URL = ''https://a/b'',
      Headers = parseHeaders ''Content-Type:'', Body = ''{}''\<rparr>
   = Inr \<lparr>rq_Method = ''POST'', rq_URL = ''https://a/b'', rq_Body = Some ''{}'',
          rq_Header = [''Content-Type'' \<mapsto> [''application/json'']]\<rparr>
   \<and> parseHeaders ''Content-Type:'' = [''Content-Type'' \<mapsto> []]"
  by (simp add: outgoingRequest_def addHeaders_def Header_Add_def Header_Get_def Header_Set_def
      canonical_content_type parseHeaders_def TrimSpace_def spaceWidth_def asciiSpace_def
      isPrefixOf_def unicodeSpaces_def Let_def numeral_2_eq_2)

subsection \<open>C8: a failed send\<close>

text \<open>
  C8, as the code has it. Handling a failure event leaves the mode as it is, sets \<open>loading\<close>
  to false and \<open>err\<close> to the failure description, and changes nothing else: the stored
  response and the response view are as before. The executor yields the failure event with
  description \<open>e\<close> exactly when the construction of the request, the round trip or the
  reading of the body fails with \<open>e\<close>. Both send triggers leave the machine on the main
  screen, so when the failure is the next event handled the mode is Idle.
\<close>

theorem send_failure_keeps_mode:
  "Update ui m (errMsg e) = Inr (m\<lparr>loading := False, err := Some e\<rparr>, CmdNil)
   \<and> (sendRequest net req = errMsg e \<longleftrightarrow>
        outgoingRequest net req = Inl e \<or>
        (\<exists>httpReq. outgoingRequest net req = Inr httpReq \<and>
           (client_Do net httpReq = Inl e \<or>
            (\<exists>resp. client_Do net httpReq = Inr resp \<and> rs_ReadAll resp = Inl e))))
   \<and> (state m = stateMain \<and> KeyMsg_String k = ''enter'' \<and> URL (currentRequest m) \<noteq> [] \<longrightarrow>
        run ui m [KeyMsg k, errMsg e] = Inr (m\<lparr>loading := False, err := Some e\<rparr>))
   \<and> (state m = stateEditRequest \<and> KeyMsg_String k = ''ctrl+s'' \<longrightarrow>
        run ui m [KeyMsg k, errMsg e]
          = Inr (m\<lparr>state := stateMain, loading := False, err := Some e\<rparr>))"
proof (intro conjI impI)
  show "Update ui m (errMsg e) = Inr (m\<lparr>loading := False, err := Some e\<rparr>, CmdNil)"
    by (simp add: Update_def handleMsg_def)
next
  show "sendRequest net req = errMsg e \<longleftrightarrow>
        outgoingRequest net req = Inl e \<or>
        (\<exists>httpReq. outgoingRequest net req = Inr httpReq \<and>
           (client_Do net httpReq = Inl e \<or>
            (\<exists>resp. client_Do net httpReq = Inr resp \<and> rs_ReadAll resp = Inl e)))"
    by (auto simp: sendRequest_def split: sum.splits)
next
  assume "state m = stateMain \<and> KeyMsg_String k = ''enter'' \<and> URL (currentRequest m) \<noteq> []"
  then show "run ui m [KeyMsg k, errMsg e] = Inr (m\<lparr>loading := False, err := Some e\<rparr>)"
    by (simp add: Update_def handleMsg_def handleKey_def)
next
  assume edit: "state m = stateEditRequest \<and> KeyMsg_String k = ''ctrl+s''"
  then have "\<not> isNavigationKey k" by (simp add: send_key_is_no_navigation_key)
  with edit show "run ui m [KeyMsg k, errMsg e]
          = Inr (m\<lparr>state := stateMain, loading := False, err := Some e\<rparr>)"
    by (simp add: Update_def handleMsg_def handleKey_def)
qed

text \<open>
  The two triggers at concrete states, each followed at once by the failure of the send.
\<close>

theorem send_failure_keeps_mode_witness:
  "run still_ui
     (initialModel\<lparr>currentRequest := (currentRequest initialModel)\<lparr>URL := ''https://unreachable.invalid''\<rparr>\<rparr>)
     [key KeyEnter, errMsg ''no such host'']
   = Inr (initialModel\<lparr>currentRequest := (currentRequest initialModel)\<lparr>URL := ''https://unreachable.invalid''\<rparr>,
                       loading := False, err := Some ''no such host''\<rparr>)
   \<and> run still_ui (initialModel\<lparr>state := stateEditRequest\<rparr>) [key KeyCtrlS, errMsg ''no such host'']
     = Inr (initialModel\<lparr>state := stateMain, loading := False, err := Some ''no such host''\<rparr>)"
  using
    send_failure_keeps_mode
      [of still_ui
          "initialModel\<lparr>currentRequest := (currentRequest initialModel)\<lparr>URL := ''https://unreachable.invalid''\<rparr>\<rparr>"
          "''no such host''" _ _ "\<lparr>Type = KeyEnter, Runes = [], Alt = False\<rparr>"]
    send_failure_keeps_mode
      [of still_ui "initialModel\<lparr>state := stateEditRequest\<rparr>" "''no such host''" _ _
          "\<lparr>Type = KeyCtrlS, Runes = [], Alt = False\<rparr>"]
  by (simp add: key_def KeyMsg_String_def initialModel_def)

text \<open>
  Against C8 as stated: a send is dispatched from the main screen, the user enters the edit
  form while it is outstanding, then the send fails. The mode after the failure event is
  the edit form, not Idle.
\<close>

theorem send_failure_while_editing:
  "map_sum id state
     (run still_ui
        (initialModel\<lparr>currentRequest := (currentRequest initialModel)\<lparr>URL := ''https://unreachable.invalid''\<rparr>\<rparr>)
        [key KeyEnter, rune ''e'', errMsg ''no such host''])
   = Inr stateEditRequest"
  by (simp add: update_defs)

subsection \<open>C9: when the recorded failure goes away\<close>

text \<open>
  C9, as the code has it. No step of \<open>Update\<close> clears \<open>err\<close>: a failure event replaces it by
  the new description, and every other message, the result of a successful send and a
  delivered list of saved requests among them, leaves it as it was.
\<close>

theorem last_error_only_superseded:
  "Update ui m msg = Inr (m', cmd) \<Longrightarrow>
     err m' = (case msg of errMsg e \<Rightarrow> Some e | _ \<Rightarrow> err m)"
  by (cases msg; cases "state m")
     (auto simp: Update_def handleMsg_def handleKey_def navigate_def componentUpdates_def Let_def
        split: if_splits option.splits prod.splits outcome.splits)

text \<open>A successful send arrives while a failure is recorded.\<close>

theorem last_error_only_superseded_witness:
  "Update still_ui (initialModel\<lparr>err := Some ''boom''\<rparr>)
     (responseMsg \<lparr>StatusCode = 0, Status = ''OK'', RespHeaders = Map.empty, RespBody = ''ok'',
                   Error = []\<rparr>)
   = Inr (initialModel
            \<lparr>err := Some ''boom'',
             response := \<lparr>StatusCode = 0, Status = ''OK'', RespHeaders = Map.empty,
                          RespBody = ''ok'', Error = []\<rparr>,
             state := stateViewResponse,
             responseView :=
               viewport_SetContent (responseView initialModel)
                 (responseContent still_ui (currentRequest initialModel)
                    \<lparr>StatusCode = 0, Status = ''OK'', RespHeaders = Map.empty, RespBody = ''ok'',
                      Error = []\<rparr>)\<rparr>, CmdNil)
   \<and> err (initialModel
            \<lparr>err := Some ''boom'',
             response := \<lparr>StatusCode = 0, Status = ''OK'', RespHeaders = Map.empty,
                          RespBody = ''ok'', Error = []\<rparr>,
             state := stateViewResponse,
             responseView :=
               viewport_SetContent (responseView initialModel)
                 (responseContent still_ui (currentRequest initialModel)
                    \<lparr>StatusCode = 0, Status = ''OK'', RespHeaders = Map.empty, RespBody = ''ok'',
                      Error = []\<rparr>)\<rparr>) = Some ''boom''"
proof -
  let ?resp = "\<lparr>StatusCode = 0, Status = ''OK'', RespHeaders = Map.empty, RespBody = ''ok'',
                Error = []\<rparr>"
  let ?m' = "initialModel
            \<lparr>err := Some ''boom'', response := ?resp, state := stateViewResponse,
             responseView :=
               viewport_SetContent (responseView initialModel)
                 (responseContent still_ui (currentRequest initialModel) ?resp)\<rparr>"
  have step: "Update still_ui (initialModel\<lparr>err := Some ''boom''\<rparr>) (responseMsg ?resp)
                = Inr (?m', CmdNil)"
    by (simp add: Update_def handleMsg_def initialModel_def)
  from last_error_only_superseded [OF step] have "err ?m' = Some ''boom''" by simp
  with step show ?thesis by simp
qed

text \<open>
  Against C9 as stated: a failure is recorded, then a send completes successfully and a list
  of saved requests is delivered; \<open>err\<close> still holds the description of the failure.
\<close>

theorem last_error_survives_success:
  "map_sum id err
     (run still_ui initialModel
        [errMsg ''boom'',
         responseMsg \<lparr>StatusCode = 200, Status = ''200 OK'', RespHeaders = Map.empty,
                      RespBody = ''ok'', Error = []\<rparr>,
         savedRequestsMsg []])
   = Inr (Some ''boom'')"
  by (simp add: update_defs)

subsection \<open>C10: loading the saved requests\<close>

text \<open>
  C10, as the code has it. When the requests directory does not exist the loaded list is
  empty. Otherwise, when the directory cannot be listed, the error of the listing is
  surfaced as a failure event; when it can, the result is the list of the requests read
  from its entries in the order of the listing, where an entry contributes its request
  when it is not a directory, its name ends in \<open>.json\<close>, it can be read and its content
  parses, and contributes nothing otherwise (\<open>savedRequestOf\<close>): a file that fails to read
  or to parse is skipped and the listing goes on.
\<close>

theorem loadSavedRequests_result:
  "loadSavedRequests fs =
     (if stat_IsNotExist fs then savedRequestsMsg []
      else (case ReadDir fs of
              Inl e \<Rightarrow> errMsg e
            | Inr files \<Rightarrow> savedRequestsMsg (List.map_filter (savedRequestOf fs) files)))"
  by (simp add: loadSavedRequests_def loadSavedRequests_loop_map_filter split: sum.splits)

text \<open>
  A directory with an unparsable file, a well-formed file, a file that cannot be read, a
  subdirectory and a file of another kind: the loaded list is the well-formed request alone.
\<close>

theorem loadSavedRequests_result_witness:
  "loadSavedRequests
     \<lparr>stat_IsNotExist = False,
      ReadDir = Inr [\<lparr>de_Name = ''bad.json'', de_IsDir = False\<rparr>,
                     \<lparr>de_Name = ''good.json'', de_IsDir = False\<rparr>,
                     \<lparr>de_Name = ''locked.json'', de_IsDir = False\<rparr>,
                     \<lparr>de_Name = ''dir.json'', de_IsDir = True\<rparr>,
                     \<lparr>de_Name = ''notes.txt'', de_IsDir = False\<rparr>],
      ReadFile = (\<lambda>path. if path = ''requests/locked.json'' then Inl ''permission denied''
                          else Inr path),
      json_Unmarshal =
        (\<lambda>data. if data = ''requests/good.json''
                 then Inr \<lparr>Name = ''X'', Method = ''PUT'', URL = ''https://a/b'',
                           Headers = [''H'' \<mapsto> ''V''], Body = ''{}''\<rparr>
                 else Inl ''invalid character'')\<rparr>
   = savedRequestsMsg
       [\<lparr>Name = ''X'', Method = ''PUT'', URL = ''https://a/b'', Headers = [''H'' \<mapsto> ''V''],
         Body = ''{}''\<rparr>]"
  using
    loadSavedRequests_result
      [of "\<lparr>stat_IsNotExist = False,
            ReadDir = Inr [\<lparr>de_Name = ''bad.json'', de_IsDir = False\<rparr>,
                           \<lparr>de_Name = ''good.json'', de_IsDir = False\<rparr>,
                           \<lparr>de_Name = ''locked.json'', de_IsDir = False\<rparr>,
                           \<lparr>de_Name = ''dir.json'', de_IsDir = True\<rparr>,
                           \<lparr>de_Name = ''notes.txt'', de_IsDir = False\<rparr>],
            ReadFile = (\<lambda>path. if path = ''requests/locked.json'' then Inl ''permission denied''
                                else Inr path),
            json_Unmarshal =
              (\<lambda>data. if data = ''requests/good.json''
                       then Inr \<lparr>Name = ''X'', Method = ''PUT'', URL = ''https://a/b'',
                                 Headers = [''H'' \<mapsto> ''V''], Body = ''{}''\<rparr>
                       else Inl ''invalid character'')\<rparr>"]
  by (simp add: savedRequestOf_def HasSuffix_def filepath_Join_def)

text \<open>
  Against C10 as stated: the requests directory exists and cannot be listed; the result is
  a failure event, not a list.
\<close>

theorem loadSavedRequests_unlistable_directory:
  "loadSavedRequests
     \<lparr>stat_IsNotExist = False, ReadDir = Inl ''open requests: permission denied'',
      ReadFile = (\<lambda>path. Inl ''no such file''), json_Unmarshal = (\<lambda>data. Inl ''invalid'')\<rparr>
   = errMsg ''open requests: permission denied''"
  by (simp add: loadSavedRequests_def)

end
